theory Spec2Isabelle
  imports Main "HOL-Library.Word"
begin

section \<open>Shared data model\<close>

text \<open>
  Go's \<open>[32]byte\<close> hashes, 20-byte addresses and \<open>uint64\<close> chain selectors are
  machine words; byte strings are lists of bytes.
\<close>

type_synonym hash = "256 word"
type_synonym address = "160 word"
type_synonym selector = "64 word"
type_synonym bytes = "8 word list"

text \<open>
  A Go \<open>error\<close> value. \<open>Errorf\<close> mirrors \<open>fmt.Errorf(format, args...)\<close>: the format
  string is kept as written in the source together with its arguments, so that what a
  message interpolates (a chain selector, a wrapped error) stays visible.
  \<open>ExternalError\<close> is an error handed back by a collaborator outside the sources (an RPC
  call, a contract binding). \<open>Panic\<close> stands for a run-time panic, which returns nothing
  to the caller.
\<close>

datatype error =
    ExternalError string
  | Errorf string "fmtarg list"
  | Panic string
and fmtarg =
    ArgUint nat
  | ArgString string
  | ArgError error


text \<open>The generated binding's capability descriptor and the registry's stored view of it.\<close>

record CapabilitiesRegistryCapability =
  LabelledName :: string
  Version :: string
  CapabilityType :: "8 word"
  ResponseType :: "8 word"
  ConfigurationContract :: address

record CapabilitiesRegistryCapabilityInfo =
  HashedId :: hash
  InfoLabelledName :: string
  InfoVersion :: string
  InfoConfigurationContract :: address
  IsDeprecated :: bool

text \<open>
  \<open>*bind.TransactOpts\<close>: who signs, and whether the binding only builds the
  transaction (\<open>NoSend\<close>) instead of submitting it.
\<close>

record TransactOpts =
  From :: address
  NoSend :: bool

text \<open>
  Modelled from the spec: \<open>deployment.SimTransactOpts\<close> is not among the sources.
  Batched mode "returns immediately with a placeholder result; no on-chain effect
  occurs" (4.4), so its options build the transaction without sending it.
\<close>

definition SimTransactOpts :: TransactOpts where
  "SimTransactOpts = \<lparr>From = 0, NoSend = True\<rparr>"

record Transaction =
  tx_Hash :: string
  tx_Data :: bytes


subsection \<open>Contract records\<close>

text \<open>
  \<open>deployment.ContractType\<close> with the values the changeset declares, the versions it
  uses, and \<open>deployment.TypeAndVersion\<close>.
\<close>

datatype ContractType =
    MockRMN | RMNRemote | LinkToken | ARMProxy | WETH9 | Router | CommitStore
  | TokenAdminRegistry | RegistryModule | NonceManager | FeeQuoter | CCIPHome | CCIPConfig
  | RMNHome | OnRamp | OffRamp | CapabilitiesRegistry | PriceFeed | TestRouter | Multicall3
  | CCIPReceiver | BurnMintToken | BurnMintTokenPool | USDCToken | USDCMockTransmitter
  | USDCTokenMessenger | USDCTokenPool

datatype Semver = Version1_0_0 | Version1_2_0 | Version1_5_0 | Version1_6_0_dev

type_synonym TypeAndVersion = "ContractType \<times> Semver"

definition NewTypeAndVersion :: "ContractType \<Rightarrow> Semver \<Rightarrow> TypeAndVersion" where
  "NewTypeAndVersion t v = (t, v)"

text \<open>
  Modelled from the spec: the address book is not among the sources. It is the "durable
  mapping from (environment, contract-type, version) to deployed address" that "supports
  merge and existence lookup" (2); here the list of saved records, oldest first.
\<close>

type_synonym ContractRecord = "selector \<times> address \<times> TypeAndVersion"
type_synonym AddressBook = "ContractRecord list"

text \<open>
  Modelled from the spec: \<open>merge(delta)\<close> of the address book contract (6), a union of
  records whose keys are disjoint per environment (9). \<open>recordsOf\<close> is the existence
  lookup, per environment.
\<close>

definition Merge :: "AddressBook \<Rightarrow> AddressBook \<Rightarrow> AddressBook" where
  "Merge book delta = book @ delta"

definition recordsOf :: "AddressBook \<Rightarrow> selector \<Rightarrow> ContractRecord list" where
  "recordsOf book sel = filter (\<lambda>r. fst r = sel) book"

subsection \<open>The chain handle\<close>

record RMNRemoteConfig =
  RmnHomeContractConfigDigest :: hash
  Signers :: "(64 word \<times> address) list"
  F :: "64 word"

text \<open>The transactor calls the sources make through generated bindings: contract, arguments.\<close>

datatype call =
    AddRegistryModule address address
  | RMNRemoteSetConfig address RMNRemoteConfig
  | FeeQuoterApplyAuthorizedCallerUpdates address "address list"
  | NonceManagerApplyAuthorizedCallerUpdates address "address list"

text \<open>
  \<open>chain.Client\<close>, the RPC endpoint. Everything that goes through it leaves the
  program, so the client is the table of outcomes: of deploying a contract of a type and
  version with the addresses given to its constructor (deployment, confirmation and
  saving taken together), of the read \<open>IsRegistryModule\<close> on a token admin registry, and
  of submitting a transactor call.
\<close>

record Client =
  cl_Deploy :: "TypeAndVersion \<Rightarrow> address list \<Rightarrow> error + address"
  cl_IsRegistryModule :: "address \<Rightarrow> address \<Rightarrow> error + bool"
  cl_Transact :: "TransactOpts \<Rightarrow> call \<Rightarrow> error + Transaction"

record Chain =
  Selector :: selector
  DeployerKey :: TransactOpts
  Confirm :: "Transaction \<Rightarrow> error + 64 word"
  Client :: Client


section \<open>keystone/capability\_management.go\<close>

text \<open>
  The bound registry contract. Its calls leave the program, so each is a field giving the
  call's outcome: the reads, and the transactor \<open>AddCapabilities\<close> that returns the
  built transaction or an error.
\<close>

record CapabilitiesRegistry =
  reg_Address :: address
  reg_GetCapabilities :: "error + CapabilitiesRegistryCapabilityInfo list"
  reg_GetHashedCapabilityId :: "string \<Rightarrow> string \<Rightarrow> error + hash"
  reg_GetCapability :: "hash \<Rightarrow> error + CapabilitiesRegistryCapabilityInfo"
  reg_AddCapabilities ::
    "TransactOpts \<Rightarrow> CapabilitiesRegistryCapability list \<Rightarrow> error + Transaction"

record ContractSet =
  cs_CapabilitiesRegistry :: "CapabilitiesRegistry option"

record Operation =
  To :: address
  Data :: bytes
  Value :: int

record BatchChainOperation =
  ChainIdentifier :: selector
  Batch :: "Operation list"

text \<open>What a run does besides returning: registry reads, transactor calls, waits, log lines.\<close>

datatype event =
    EvGetCapabilities
  | EvGetHashedCapabilityId string string
  | EvAddCapabilities TransactOpts "CapabilitiesRegistryCapability list"
  | EvConfirm Transaction
  | EvInfo string

text \<open>An event reaches the chain when it submits a transaction or waits for one.\<close>

fun onchain :: "event \<Rightarrow> bool" where
  "onchain (EvAddCapabilities opts caps) = (\<not> NoSend opts)"
| "onchain (EvConfirm tx) = True"
| "onchain _ = False"

fun readsRegistry :: "event \<Rightarrow> bool" where
  "readsRegistry EvGetCapabilities = True"
| "readsRegistry (EvGetHashedCapabilityId n v) = True"
| "readsRegistry _ = False"

definition CapabilityID :: "CapabilitiesRegistryCapability \<Rightarrow> string" where
  "CapabilityID c = LabelledName c @ ''@'' @ Version c"

text \<open>
  The loop of \<open>dedupCapabilities\<close>: \<open>existingByID\<close> and \<open>seen\<close> are the two Go maps
  used as sets, \<open>out\<close> the slice built so far. The hash is requested before the
  \<open>seen\<close> test, as in the source, so a failing call aborts even on a duplicate.
\<close>

fun dedupLoop ::
  "CapabilitiesRegistry \<Rightarrow> hash set \<Rightarrow> string set \<Rightarrow> CapabilitiesRegistryCapability list \<Rightarrow>
   CapabilitiesRegistryCapability list \<Rightarrow>
   (error + CapabilitiesRegistryCapability list) \<times> event list" where
  "dedupLoop registry existingByID seen out [] = (Inr out, [])"
| "dedupLoop registry existingByID seen out (candidate # rest) =
     (case reg_GetHashedCapabilityId registry (LabelledName candidate) (Version candidate) of
        Inl err \<Rightarrow>
          (Inl (Errorf ''failed to call GetHashedCapabilityId: %w'' [ArgError err]),
           [EvGetHashedCapabilityId (LabelledName candidate) (Version candidate)])
      | Inr h \<Rightarrow>
          (case (if CapabilityID candidate \<in> seen
                 then dedupLoop registry existingByID seen out rest
                 else dedupLoop registry existingByID (insert (CapabilityID candidate) seen)
                        (if h \<notin> existingByID then out @ [candidate] else out) rest) of
             (r, evs) \<Rightarrow>
               (r, EvGetHashedCapabilityId (LabelledName candidate) (Version candidate) # evs)))"

definition dedupCapabilities ::
  "CapabilitiesRegistry \<Rightarrow> CapabilitiesRegistryCapability list \<Rightarrow>
   (error + CapabilitiesRegistryCapability list) \<times> event list" where
  "dedupCapabilities registry capabilities =
     (case reg_GetCapabilities registry of
        Inl err \<Rightarrow>
          (Inl (Errorf ''failed to call GetCapabilities: %w'' [ArgError err]), [EvGetCapabilities])
      | Inr existing \<Rightarrow>
          (case dedupLoop registry (set (map HashedId existing)) {} [] capabilities of
             (r, evs) \<Rightarrow> (r, EvGetCapabilities # evs)))"

text \<open>
  \<open>AddCapabilities\<close>. \<open>DecodeErr\<close> is a helper of the package that is not among the
  sources; it is passed in. A nil registry pointer panics at the first call through it.
  The result is the returned pair: \<open>Inl\<close> an error (with a nil batch), \<open>Inr None\<close> for
  \<open>nil, nil\<close>, \<open>Inr (Some b)\<close> for a batch and a nil error.
\<close>

definition AddCapabilities ::
  "(error \<Rightarrow> error) \<Rightarrow> ContractSet \<Rightarrow> Chain \<Rightarrow> CapabilitiesRegistryCapability list \<Rightarrow> bool \<Rightarrow>
   (error + BatchChainOperation option) \<times> event list" where
  "AddCapabilities DecodeErr contractSet chain capabilities useMCMS =
     (if length capabilities = 0 then (Inr None, [])
      else
        (case cs_CapabilitiesRegistry contractSet of
           None \<Rightarrow> (Inl (Panic ''nil pointer dereference''), [])
         | Some registry \<Rightarrow>
             (case dedupCapabilities registry capabilities of
                (Inl err, evs) \<Rightarrow>
                  (Inl (Errorf ''failed to dedup capabilities: %w'' [ArgError err]), evs)
              | (Inr deduped, evs) \<Rightarrow>
                  (let txOpts = (if useMCMS then SimTransactOpts else DeployerKey chain) in
                   case reg_AddCapabilities registry txOpts deduped of
                     Inl err \<Rightarrow>
                       (Inl (Errorf ''failed to add capabilities: %w'' [ArgError (DecodeErr err)]),
                        evs @ [EvAddCapabilities txOpts deduped])
                   | Inr tx \<Rightarrow>
                       (if \<not> useMCMS then
                          (case Confirm chain tx of
                             Inl err \<Rightarrow>
                               (Inl (Errorf
                                  ''failed to confirm AddCapabilities confirm transaction %s: %w''
                                  [ArgString (tx_Hash tx), ArgError err]),
                                evs @ [EvAddCapabilities txOpts deduped, EvConfirm tx])
                           | Inr blk \<Rightarrow>
                               (Inr None,
                                evs @ [EvAddCapabilities txOpts deduped, EvConfirm tx,
                                       EvInfo ''registered capabilities'']))
                        else
                          (Inr (Some \<lparr>ChainIdentifier = Selector chain,
                                      Batch = [\<lparr>To = reg_Address registry, Data = tx_Data tx,
                                                Value = 0\<rparr>]\<rparr>),
                           evs @ [EvAddCapabilities txOpts deduped]))))))"


subsection \<open>Concrete inputs\<close>

text \<open>The two descriptors of \<open>TestAppendNodeCapabilities\<close>.\<close>

definition capA :: CapabilitiesRegistryCapability where
  "capA = \<lparr>LabelledName = ''capA'', Version = ''0.4.2'', CapabilityType = 0, ResponseType = 0,
            ConfigurationContract = 0\<rparr>"

definition capB :: CapabilitiesRegistryCapability where
  "capB = \<lparr>LabelledName = ''capB'', Version = ''3.16.0'', CapabilityType = 0, ResponseType = 0,
            ConfigurationContract = 0\<rparr>"

text \<open>
  A registry with nothing registered whose calls all succeed; its stand-in hash tells the
  descriptors used here apart, and the built transaction carries one byte per descriptor.
\<close>

definition sampleHash :: "string \<Rightarrow> string \<Rightarrow> hash" where
  "sampleHash n v = word_of_nat (length n) * 256 + word_of_nat (length v)"

definition sampleRegistry :: CapabilitiesRegistry where
  "sampleRegistry =
     \<lparr>reg_Address = 0xCA,
      reg_GetCapabilities = Inr [],
      reg_GetHashedCapabilityId = (\<lambda>n v. Inr (sampleHash n v)),
      reg_GetCapability = (\<lambda>h. Inl (ExternalError ''capability does not exist'')),
      reg_AddCapabilities =
        (\<lambda>opts caps. Inr \<lparr>tx_Hash = ''0x01'', tx_Data = map (\<lambda>c. word_of_nat (length (Version c))) caps\<rparr>)\<rparr>"

definition sampleChain :: Chain where
  "sampleChain =
     \<lparr>Selector = 909606746561742123, DeployerKey = \<lparr>From = 0xD1, NoSend = False\<rparr>,
      Confirm = (\<lambda>tx. Inr 1),
      Client = \<lparr>cl_Deploy = (\<lambda>tv args. Inl (ExternalError ''no code'')),
                cl_IsRegistryModule = (\<lambda>registry module. Inr True),
                cl_Transact = (\<lambda>opts c. Inl (ExternalError ''reverted''))\<rparr>\<rparr>"

text \<open>
  Two descriptors that differ in name and in version and share the string
  \<open>a@b@c\<close> as \<open>CapabilityID\<close>.
\<close>

definition capAtInName :: CapabilitiesRegistryCapability where
  "capAtInName = \<lparr>LabelledName = ''a@b'', Version = ''c'', CapabilityType = 0, ResponseType = 0,
                   ConfigurationContract = 0\<rparr>"

definition capAtInVersion :: CapabilitiesRegistryCapability where
  "capAtInVersion = \<lparr>LabelledName = ''a'', Version = ''b@c'', CapabilityType = 0,
                      ResponseType = 0, ConfigurationContract = 0\<rparr>"

subsection \<open>The deduplicator as the specification words it\<close>

text \<open>
  Section 4.5 of the specification, for comparison with the loop of the source: going
  through the request in order, a descriptor survives when its registry hash is not
  registered and no earlier descriptor of the request has the same name and version.
\<close>

fun dedupSpec ::
  "(CapabilitiesRegistryCapability \<Rightarrow> hash) \<Rightarrow> hash set \<Rightarrow> CapabilitiesRegistryCapability list \<Rightarrow>
   CapabilitiesRegistryCapability list \<Rightarrow> CapabilitiesRegistryCapability list" where
  "dedupSpec hashOf registered earlier [] = []"
| "dedupSpec hashOf registered earlier (c # cs) =
     (if hashOf c \<notin> registered
         \<and> (\<forall>d \<in> set earlier. (LabelledName d, Version d) \<noteq> (LabelledName c, Version c))
      then [c] else [])
     @ dedupSpec hashOf registered (earlier @ [c]) cs"


section \<open>changeset: deploying the CCIP contracts\<close>

subsection \<open>State, environment, effects\<close>

text \<open>
  \<open>CCIPChainState\<close>: the loaded view of one chain, one field per contract, nil when
  the contract is not known. The declaration is not among the sources; the fields are
  those the sources read. A binding whose reads the sources call carries their outcomes.
\<close>

record RMNHomeContract =
  rh_Address :: address
  rh_GetActiveDigest :: "error + hash"

record CCIPChainState =
  st_Weth9 :: "address option"
  st_LinkToken :: "address option"
  st_TokenAdminRegistry :: "address option"
  st_RegistryModule :: "address option"
  st_RMNProxyExisting :: "address option"
  st_RMNProxyNew :: "address option"
  st_Router :: "address option"
  st_Multicall3 :: "address option"
  st_Receiver :: "address option"
  st_RMNRemote :: "address option"
  st_TestRouter :: "address option"
  st_NonceManager :: "address option"
  st_FeeQuoter :: "address option"
  st_OnRamp :: "address option"
  st_OffRamp :: "address option"
  st_Timelock :: "address option"
  st_CapabilityRegistry :: "CapabilitiesRegistry option"
  st_CCIPHome :: "address option"
  st_RMNHome :: "RMNHomeContract option"

text \<open>Go's zero value of the struct: what a map lookup yields for a missing key.\<close>

definition zeroChainState :: CCIPChainState where
  "zeroChainState =
     \<lparr>st_Weth9 = None, st_LinkToken = None, st_TokenAdminRegistry = None,
      st_RegistryModule = None, st_RMNProxyExisting = None, st_RMNProxyNew = None,
      st_Router = None, st_Multicall3 = None, st_Receiver = None, st_RMNRemote = None,
      st_TestRouter = None, st_NonceManager = None, st_FeeQuoter = None, st_OnRamp = None,
      st_OffRamp = None, st_Timelock = None, st_CapabilityRegistry = None, st_CCIPHome = None,
      st_RMNHome = None\<rparr>"

record CCIPOnChainState =
  st_Chains :: "selector \<rightharpoonup> CCIPChainState"

definition chainStateOf :: "CCIPOnChainState \<Rightarrow> selector \<Rightarrow> CCIPChainState" where
  "chainStateOf state sel = (case st_Chains state sel of Some cs \<Rightarrow> cs | None \<Rightarrow> zeroChainState)"

record Node =
  PeerID :: hash
  IsBootstrap :: bool

text \<open>
  \<open>deployment.Environment\<close>. \<open>LoadOnchainState\<close> and \<open>deployment.NodeInfo\<close> are not
  among the sources; what they return for this environment is part of it. The
  environment does not change during a run: deployments are saved to the address book
  passed beside it, not to \<open>ExistingAddresses\<close>.
\<close>

record Environment =
  Chains :: "selector \<rightharpoonup> Chain"
  ExistingAddresses :: AddressBook
  env_LoadOnchainState :: "error + CCIPOnChainState"
  env_NodeInfo :: "Node list \<times> error option"

text \<open>
  What a run does besides returning: log lines (message only), deployments attempted,
  transactor calls and confirmations, the two configuration helpers, and the start and
  join of tasks. Reads are not recorded.
\<close>

datatype effect =
    Infow string
  | Info string
  | Errorw string
  | EffDeploy selector TypeAndVersion "address list"
  | EffTransact selector TransactOpts call
  | EffConfirm selector Transaction
  | EffAddChainConfig selector selector
  | EffAddDON selector selector
  | EffGo selector
  | EffWait

fun isDeploy :: "effect \<Rightarrow> bool" where
  "isDeploy (EffDeploy sel tv args) = True"
| "isDeploy _ = False"

fun isMutating :: "effect \<Rightarrow> bool" where
  "isMutating (EffDeploy sel tv args) = True"
| "isMutating (EffTransact sel opts c) = True"
| "isMutating (EffAddChainConfig home sel) = True"
| "isMutating (EffAddDON home sel) = True"
| "isMutating _ = False"

text \<open>The mutable surroundings of a run: the address book being filled, and the effects so far.\<close>

record Run =
  run_ab :: AddressBook
  run_trace :: "effect list"

definition emit :: "effect list \<Rightarrow> Run \<Rightarrow> Run" where
  "emit es s = s\<lparr>run_trace := run_trace s @ es\<rparr>"

text \<open>Sequencing with Go's \<open>if err != nil { return err }\<close>.\<close>

definition andThen ::
  "(error + 'a) \<times> Run \<Rightarrow> ('a \<Rightarrow> Run \<Rightarrow> (error + 'b) \<times> Run) \<Rightarrow> (error + 'b) \<times> Run" where
  "andThen r f = (case r of (Inl err, s) \<Rightarrow> (Inl err, s) | (Inr a, s) \<Rightarrow> f a s)"

definition andThen' ::
  "(Run \<Rightarrow> (error + 'a) \<times> Run) \<Rightarrow> ('a \<Rightarrow> Run \<Rightarrow> (error + 'b) \<times> Run) \<Rightarrow>
   Run \<Rightarrow> (error + 'b) \<times> Run" where
  "andThen' step f s = andThen (step s) f"

text \<open>
  Modelled from the spec: \<open>deployment.DeployContract\<close> is not among the sources. A step
  that finds nothing does "deploy, wait for confirmation, and append the new
  ContractRecord to a returned delta" (4.2), through the chain handle's
  \<open>deploy(bytecode+args) -> (address, txHandle, error)\<close> (6). The closure each call site
  passes fixes the type, the version and the constructor's address arguments.
\<close>

definition DeployContract ::
  "Chain \<Rightarrow> TypeAndVersion \<Rightarrow> address list \<Rightarrow> Run \<Rightarrow> (error + address) \<times> Run" where
  "DeployContract chain tv args s =
     (case cl_Deploy (Client chain) tv args of
        Inl err \<Rightarrow> (Inl err, emit [EffDeploy (Selector chain) tv args] s)
      | Inr addr \<Rightarrow>
          (Inr addr,
           emit [EffDeploy (Selector chain) tv args]
             (s\<lparr>run_ab := run_ab s @ [(Selector chain, addr, tv)]\<rparr>)))"

text \<open>
  The block the sources repeat for every contract:
  \<^verbatim>\<open>if x == nil { c, err := DeployContract(...); if err != nil { Errorw(failed); return err }
               Infow(deployed); x = c.Contract } else { Infow(already) }\<close>
  \<open>already\<close> is the effect of the else branch (some blocks have none).
\<close>

definition deployIfNil ::
  "Chain \<Rightarrow> address option \<Rightarrow> TypeAndVersion \<Rightarrow> address list \<Rightarrow> string \<Rightarrow> string \<Rightarrow>
   effect list \<Rightarrow> Run \<Rightarrow> (error + address) \<times> Run" where
  "deployIfNil chain existing tv args failed deployed already s =
     (case existing of
        None \<Rightarrow>
          (case DeployContract chain tv args s of
             (Inl err, s') \<Rightarrow> (Inl err, emit [Errorw failed] s')
           | (Inr addr, s') \<Rightarrow> (Inr addr, emit [Infow deployed] s'))
      | Some addr \<Rightarrow> (Inr addr, emit already s))"

text \<open>
  Modelled from the spec: \<open>deployment.ConfirmIfNoError(chain, tx, err)\<close> is not among the
  sources. Direct mode "signs, submits, and blocks until confirmation; returns the
  confirmed result or a SubmissionFailed/ConfirmationFailed error" (4.4). The function is
  taken together with the transactor call whose result it receives: the call \<open>c\<close> is
  submitted with the deployer key; a failed submission is handed back, otherwise the
  transaction is waited for.
\<close>

definition ConfirmIfNoError ::
  "Chain \<Rightarrow> call \<Rightarrow> Run \<Rightarrow> (error + 64 word) \<times> Run" where
  "ConfirmIfNoError chain c s =
     (case cl_Transact (Client chain) (DeployerKey chain) c of
        Inl err \<Rightarrow> (Inl err, emit [EffTransact (Selector chain) (DeployerKey chain) c] s)
      | Inr tx \<Rightarrow>
          (Confirm chain tx,
           emit [EffTransact (Selector chain) (DeployerKey chain) c,
                 EffConfirm (Selector chain) tx] s))"

subsection \<open>deployPrerequisiteContracts\<close>

record DeployPrerequisiteContractsOpts =
  USDCEnabledChains :: "selector list"
  Multicall3Enabled :: bool

type_synonym PrerequisiteOpt = "DeployPrerequisiteContractsOpts \<Rightarrow> DeployPrerequisiteContractsOpts"

definition WithUSDCChains :: "selector list \<Rightarrow> PrerequisiteOpt" where
  "WithUSDCChains usdcChains = (\<lambda>opt. opt\<lparr>USDCEnabledChains := usdcChains\<rparr>)"

definition WithMulticall3 :: "bool \<Rightarrow> PrerequisiteOpt" where
  "WithMulticall3 enabled = (\<lambda>opt. opt\<lparr>Multicall3Enabled := enabled\<rparr>)"

text \<open>The options are applied in order to the zero value; a nil option is skipped.\<close>

definition applyOpts :: "PrerequisiteOpt option list \<Rightarrow> DeployPrerequisiteContractsOpts" where
  "applyOpts opts =
     foldl (\<lambda>deployOpts opt. case opt of None \<Rightarrow> deployOpts | Some f \<Rightarrow> f deployOpts)
       \<lparr>USDCEnabledChains = [], Multicall3Enabled = False\<rparr> opts"

text \<open>Lines 272-309: the mock RMN and the proxy in front of it; no else branch.\<close>

definition deployRMNProxyExisting :: "Chain \<Rightarrow> address option \<Rightarrow> Run \<Rightarrow> (error + address) \<times> Run" where
  "deployRMNProxyExisting chain rmnProxy s =
     (case rmnProxy of
        Some addr \<Rightarrow> (Inr addr, s)
      | None \<Rightarrow>
          andThen
            (deployIfNil chain None (NewTypeAndVersion MockRMN Version1_0_0) []
               ''Failed to deploy mock RMN'' ''deployed mock RMN'' [] s)
            (\<lambda>rmn. deployIfNil chain None (NewTypeAndVersion ARMProxy Version1_0_0) [rmn]
               ''Failed to deploy RMNProxyNew'' ''deployed RMNProxyNew'' []))"

text \<open>Lines 349-367: the registry module is assigned only when the registry does not know it.\<close>

definition assignRegistryModule :: "Chain \<Rightarrow> address \<Rightarrow> address \<Rightarrow> Run \<Rightarrow> (error + unit) \<times> Run" where
  "assignRegistryModule chain tokenAdminReg registryModule s =
     (case cl_IsRegistryModule (Client chain) tokenAdminReg registryModule of
        Inl err \<Rightarrow>
          (Inl (Errorf ''failed to check if registry module is added on token admin registry: %w''
                  [ArgError err]),
           emit [Errorw ''Failed to check if registry module is added on token admin registry''] s)
      | Inr isRegistryAdded \<Rightarrow>
          (if \<not> isRegistryAdded then
             (case cl_Transact (Client chain) (DeployerKey chain)
                     (AddRegistryModule tokenAdminReg registryModule) of
                Inl err \<Rightarrow>
                  (Inl (Errorf ''failed to assign registry module on token admin registry: %w''
                          [ArgError err]),
                   emit [EffTransact (Selector chain) (DeployerKey chain)
                           (AddRegistryModule tokenAdminReg registryModule),
                         Errorw ''Failed to assign registry module on token admin registry''] s)
              | Inr tx \<Rightarrow>
                  (case Confirm chain tx of
                     Inl err \<Rightarrow>
                       (Inl (Errorf
                          ''failed to confirm assign registry module on token admin registry: %w''
                          [ArgError err]),
                        emit [EffTransact (Selector chain) (DeployerKey chain)
                                (AddRegistryModule tokenAdminReg registryModule),
                              EffConfirm (Selector chain) tx,
                              Errorw
                                ''Failed to confirm assign registry module on token admin registry'']
                          s)
                   | Inr blk \<Rightarrow>
                       (Inr (),
                        emit [EffTransact (Selector chain) (DeployerKey chain)
                                (AddRegistryModule tokenAdminReg registryModule),
                              EffConfirm (Selector chain) tx,
                              Infow ''assigned registry module on token admin registry''] s)))
           else (Inr (), s)))"

text \<open>
  Lines 434-452. The else branch is taken also when the contract is nil and the option is
  off. It logs \<open>mc3.Address\<close>, a method value: \<open>Address\<close> is a method of the generated
  bindings (the sources call \<open>tokenAdminReg.Address()\<close>, \<open>r.Address()\<close>), and binding a
  pointer-receiver method to a nil pointer does not dereference it. So the branch logs
  and goes on.
\<close>

definition deployMulticall3 :: "Chain \<Rightarrow> bool \<Rightarrow> address option \<Rightarrow> Run \<Rightarrow> (error + unit) \<times> Run" where
  "deployMulticall3 chain enabled mc3 s =
     (if enabled \<and> mc3 = None then
        (case DeployContract chain (NewTypeAndVersion Multicall3 Version1_0_0) [] s of
           (Inl err, s') \<Rightarrow> (Inl err, emit [Errorw ''Failed to deploy ccip multicall''] s')
         | (Inr addr, s') \<Rightarrow> (Inr (), emit [Infow ''deployed ccip multicall''] s'))
      else (Inr (), emit [Info ''ccip multicall already deployed''] s))"

text \<open>
  \<open>DeployUSDC\<close> is a function of the package that is not among the sources. The
  deployer takes it as its first parameter: given the chain, the proxy and the router it
  returns the four USDC contracts (token, pool, messenger, transmitter) or an error, and
  may fill the book. The call site (lines 453-465) passes it neither the state nor the
  existing book.
\<close>

type_synonym DeployUSDC_fn =
  "Chain \<Rightarrow> address \<Rightarrow> address \<Rightarrow> Run \<Rightarrow>
   (error + address \<times> address \<times> address \<times> address) \<times> Run"

definition deployUSDCIfEnabled ::
  "DeployUSDC_fn \<Rightarrow> Chain \<Rightarrow> bool \<Rightarrow> address \<Rightarrow> address \<Rightarrow> Run \<Rightarrow> (error + unit) \<times> Run" where
  "deployUSDCIfEnabled DeployUSDC chain isUSDC rmnProxy r s =
     (if isUSDC then
        (case DeployUSDC chain rmnProxy r s of
           (Inl err1, s') \<Rightarrow> (Inl err1, s')
         | (Inr contracts, s') \<Rightarrow> (Inr (), emit [Infow ''Deployed USDC contracts''] s'))
      else (Inr (), s))"

text \<open>
  Modelled from the spec: \<open>DeployUSDC\<close> is not among the sources. With the flag "enable
  stablecoin support for this environment" the deployer has one more step, and a step
  that deploys does "deploy, wait for confirmation, and append the new ContractRecord to
  a returned delta" (4.2), through the chain handle's \<open>deploy(bytecode+args)\<close> (6). The
  contracts are the four the call site receives and logs (token, pool, messenger,
  transmitter), of the four USDC types the changeset declares. The function is handed the
  chain, the book being filled and two addresses, and no state.
\<close>

definition DeployUSDC_modelled :: DeployUSDC_fn where
  "DeployUSDC_modelled chain rmnProxy r s =
     andThen (DeployContract chain (NewTypeAndVersion USDCToken Version1_0_0) [] s) (\<lambda>token.
     andThen' (DeployContract chain (NewTypeAndVersion USDCMockTransmitter Version1_0_0) [])
       (\<lambda>transmitter.
     andThen' (DeployContract chain (NewTypeAndVersion USDCTokenMessenger Version1_0_0)
                 [transmitter]) (\<lambda>messenger.
     andThen' (DeployContract chain (NewTypeAndVersion USDCTokenPool Version1_0_0)
                 [messenger, token, rmnProxy, r])
       (\<lambda>pool s'. (Inr (token, pool, messenger, transmitter), s')))))"

definition deployPrerequisiteContracts ::
  "DeployUSDC_fn \<Rightarrow> Environment \<Rightarrow> CCIPOnChainState \<Rightarrow> Chain \<Rightarrow> PrerequisiteOpt option list \<Rightarrow>
   Run \<Rightarrow> (error + unit) \<times> Run" where
  "deployPrerequisiteContracts DeployUSDC e state chain opts s =
     (let deployOpts = applyOpts opts;
          isUSDC = (Selector chain \<in> set (USDCEnabledChains deployOpts));
          chainState = chainStateOf state (Selector chain)
      in
      andThen (deployRMNProxyExisting chain (st_RMNProxyExisting chainState) s) (\<lambda>rmnProxy.
      andThen' (deployIfNil chain (st_TokenAdminRegistry chainState)
                 (NewTypeAndVersion TokenAdminRegistry Version1_5_0) []
                 ''Failed to deploy token admin registry'' ''deployed tokenAdminRegistry''
                 [Infow ''tokenAdminRegistry already deployed'']) (\<lambda>tokenAdminReg.
      andThen' (deployIfNil chain (st_RegistryModule chainState)
                 (NewTypeAndVersion RegistryModule Version1_5_0) [tokenAdminReg]
                 ''Failed to deploy custom registry module'' ''deployed custom registry module''
                 [Infow ''custom registry module already deployed'']) (\<lambda>registryModule.
      andThen' (assignRegistryModule chain tokenAdminReg registryModule) (\<lambda>u1.
      andThen' (deployIfNil chain (st_Weth9 chainState)
                 (NewTypeAndVersion WETH9 Version1_0_0) []
                 ''Failed to deploy weth9'' ''deployed weth9''
                 [Infow ''weth9 already deployed'']) (\<lambda>weth9Contract.
      andThen' (deployIfNil chain (st_LinkToken chainState)
                 (NewTypeAndVersion LinkToken Version1_0_0) []
                 ''Failed to deploy linkToken'' ''deployed linkToken''
                 [Infow ''linkToken already deployed'']) (\<lambda>linkToken.
      andThen' (deployIfNil chain (st_Router chainState)
                 (NewTypeAndVersion Router Version1_2_0) [weth9Contract, rmnProxy]
                 ''Failed to deploy router'' ''deployed router''
                 [Infow ''router already deployed'']) (\<lambda>r.
      andThen' (deployMulticall3 chain (Multicall3Enabled deployOpts) (st_Multicall3 chainState))
        (\<lambda>u2. deployUSDCIfEnabled DeployUSDC chain isUSDC rmnProxy r)))))))))"


subsection \<open>deployChainContracts\<close>

text \<open>
  Lines 677-701: the chain must be in the loaded state with its prerequisites. The result
  carries the contracts the later steps use: WETH9, timelock, LINK token, token admin
  registry.
\<close>

definition checkPrerequisites ::
  "Chain \<Rightarrow> CCIPOnChainState \<Rightarrow>
   error + CCIPChainState \<times> address \<times> address \<times> address \<times> address" where
  "checkPrerequisites chain state =
     (case st_Chains state (Selector chain) of
        None \<Rightarrow>
          Inl (Errorf ''chain %d not found in existing state, deploy the prerequisites first''
                 [ArgUint (unat (Selector chain))])
      | Some chainState \<Rightarrow>
     (case st_Weth9 chainState of
        None \<Rightarrow>
          Inl (Errorf ''weth9 not found for chain %d, deploy the prerequisites first''
                 [ArgUint (unat (Selector chain))])
      | Some weth9Contract \<Rightarrow>
     (case st_Timelock chainState of
        None \<Rightarrow>
          Inl (Errorf ''timelock not found for chain %d, deploy the mcms contracts first''
                 [ArgUint (unat (Selector chain))])
      | Some timelock \<Rightarrow>
     (case st_LinkToken chainState of
        None \<Rightarrow>
          Inl (Errorf ''link token not found for chain %d, deploy the prerequisites first''
                 [ArgUint (unat (Selector chain))])
      | Some linkTokenContract \<Rightarrow>
     (case st_TokenAdminRegistry chainState of
        None \<Rightarrow>
          Inl (Errorf ''token admin registry not found for chain %d, deploy the prerequisites first''
                 [ArgUint (unat (Selector chain))])
      | Some tokenAdminReg \<Rightarrow>
     (case st_RegistryModule chainState of
        None \<Rightarrow>
          Inl (Errorf ''registry module not found for chain %d, deploy the prerequisites first''
                 [ArgUint (unat (Selector chain))])
      | Some registryModule \<Rightarrow>
     (case st_Router chainState of
        None \<Rightarrow>
          Inl (Errorf ''router not found for chain %d, deploy the prerequisites first''
                 [ArgUint (unat (Selector chain))])
      | Some r \<Rightarrow>
          Inr (chainState, weth9Contract, timelock, linkTokenContract, tokenAdminReg))))))))"

text \<open>
  Lines 745-762: the active digest of the RMN home is written to the RMN remote, with the
  one placeholder signer \<open>common.Address{1}\<close> (first byte 1). No test of the remote's
  present configuration precedes the call.
\<close>

definition rmnRemoteConfigFor :: "hash \<Rightarrow> RMNRemoteConfig" where
  "rmnRemoteConfigFor activeDigest =
     \<lparr>RmnHomeContractConfigDigest = activeDigest, Signers = [(0, 2 ^ 152)], F = 0\<rparr>"

definition setRMNRemoteConfig ::
  "Chain \<Rightarrow> RMNHomeContract \<Rightarrow> address \<Rightarrow> Run \<Rightarrow> (error + unit) \<times> Run" where
  "setRMNRemoteConfig chain rmnHome rmnRemoteContract s =
     (case rh_GetActiveDigest rmnHome of
        Inl err \<Rightarrow> (Inl err, emit [Errorw ''Failed to get active digest''] s)
      | Inr activeDigest \<Rightarrow>
          (case ConfirmIfNoError chain
                  (RMNRemoteSetConfig rmnRemoteContract (rmnRemoteConfigFor activeDigest))
                  (emit [Infow ''setting active home digest to rmn remote''] s) of
             (Inl err, s') \<Rightarrow> (Inl err, emit [Errorw ''Failed to confirm RMNRemote config''] s')
           | (Inr blk, s') \<Rightarrow> (Inr (), s')))"

text \<open>Lines 939-956, under the comment "Basic wiring is always needed."\<close>

definition applyFeeQuoterCallers ::
  "Chain \<Rightarrow> address \<Rightarrow> address \<Rightarrow> Run \<Rightarrow> (error + unit) \<times> Run" where
  "applyFeeQuoterCallers chain feeQuoterContract offRampContract s =
     (case ConfirmIfNoError chain
             (FeeQuoterApplyAuthorizedCallerUpdates feeQuoterContract
                [offRampContract, From (DeployerKey chain)]) s of
        (Inl err, s') \<Rightarrow>
          (Inl err, emit [Errorw ''Failed to confirm fee quoter authorized caller update''] s')
      | (Inr blk, s') \<Rightarrow> (Inr (), s'))"

definition applyNonceManagerCallers ::
  "Chain \<Rightarrow> address \<Rightarrow> address \<Rightarrow> address \<Rightarrow> Run \<Rightarrow> (error + unit) \<times> Run" where
  "applyNonceManagerCallers chain nmContract offRampContract onRampContract s =
     (case ConfirmIfNoError chain
             (NonceManagerApplyAuthorizedCallerUpdates nmContract
                [offRampContract, onRampContract]) s of
        (Inl err, s') \<Rightarrow>
          (Inl err, emit [Errorw ''Failed to update nonce manager with ramps''] s')
      | (Inr blk, s') \<Rightarrow> (Inr (), s'))"

definition deployChainContracts ::
  "Environment \<Rightarrow> Chain \<Rightarrow> RMNHomeContract \<Rightarrow> Run \<Rightarrow> (error + unit) \<times> Run" where
  "deployChainContracts e chain rmnHome s =
     (case env_LoadOnchainState e of
        Inl err \<Rightarrow> (Inl err, emit [Errorw ''Failed to load existing onchain state''] s)
      | Inr state \<Rightarrow>
     (case checkPrerequisites chain state of
        Inl err \<Rightarrow> (Inl err, s)
      | Inr (chainState, weth9Contract, timelock, linkTokenContract, tokenAdminReg) \<Rightarrow>
      andThen (deployIfNil chain (st_Receiver chainState)
                 (NewTypeAndVersion CCIPReceiver Version1_0_0) []
                 ''Failed to deploy receiver'' ''deployed receiver''
                 [Infow ''receiver already deployed''] s) (\<lambda>receiver.
      andThen' (deployIfNil chain (st_RMNRemote chainState)
                 (NewTypeAndVersion RMNRemote Version1_6_0_dev) []
                 ''Failed to deploy RMNRemote'' ''deployed RMNRemote''
                 [Infow ''rmn remote already deployed'']) (\<lambda>rmnRemoteContract.
      andThen' (setRMNRemoteConfig chain rmnHome rmnRemoteContract) (\<lambda>u1.
      andThen' (deployIfNil chain (st_RMNProxyNew chainState)
                 (NewTypeAndVersion ARMProxy Version1_6_0_dev) [rmnRemoteContract]
                 ''Failed to deploy RMNProxyNew'' ''deployed new RMNProxyNew''
                 [Infow ''rmn proxy already deployed'']) (\<lambda>rmnProxyContract.
      andThen' (deployIfNil chain (st_TestRouter chainState)
                 (NewTypeAndVersion TestRouter Version1_2_0) [weth9Contract, rmnProxyContract]
                 ''Failed to deploy test router'' ''deployed test router''
                 [Infow ''test router already deployed'']) (\<lambda>testRouter.
      andThen' (deployIfNil chain (st_NonceManager chainState)
                 (NewTypeAndVersion NonceManager Version1_6_0_dev) []
                 ''Failed to deploy nonce manager'' ''Deployed nonce manager''
                 [Infow ''nonce manager already deployed'']) (\<lambda>nmContract.
      andThen' (deployIfNil chain (st_FeeQuoter chainState)
                 (NewTypeAndVersion FeeQuoter Version1_6_0_dev)
                 [linkTokenContract, timelock, weth9Contract, linkTokenContract,
                  linkTokenContract, weth9Contract]
                 ''Failed to deploy fee quoter'' ''Deployed fee quoter''
                 [Infow ''fee quoter already deployed'']) (\<lambda>feeQuoterContract.
      andThen' (deployIfNil chain (st_OnRamp chainState)
                 (NewTypeAndVersion OnRamp Version1_6_0_dev)
                 [rmnProxyContract, nmContract, tokenAdminReg, feeQuoterContract, 1]
                 ''Failed to deploy onramp'' ''Deployed onramp''
                 [Infow ''onramp already deployed'']) (\<lambda>onRampContract.
      andThen' (deployIfNil chain (st_OffRamp chainState)
                 (NewTypeAndVersion OffRamp Version1_6_0_dev)
                 [rmnProxyContract, nmContract, tokenAdminReg, feeQuoterContract]
                 ''Failed to deploy offramp'' ''Deployed offramp''
                 [Infow ''offramp already deployed'']) (\<lambda>offRampContract.
      andThen' (applyFeeQuoterCallers chain feeQuoterContract offRampContract) (\<lambda>u2.
        applyNonceManagerCallers chain nmContract offRampContract onRampContract))))))))))))"

text \<open>
  What \<open>deployPrerequisiteContracts\<close> saves on a chain where nothing is known, when the
  client deploys a contract of type and version \<open>tv\<close> with arguments \<open>args\<close> at
  \<open>addrOf tv args\<close>: the records in the order of the steps, the last one only with the
  Multicall3 option.
\<close>

definition prerequisiteRecords ::
  "selector \<Rightarrow> (TypeAndVersion \<Rightarrow> address list \<Rightarrow> address) \<Rightarrow> bool \<Rightarrow> AddressBook" where
  "prerequisiteRecords sel addrOf multicall =
     (let rmn = addrOf (MockRMN, Version1_0_0) [];
          rmnProxy = addrOf (ARMProxy, Version1_0_0) [rmn];
          tokenAdminReg = addrOf (TokenAdminRegistry, Version1_5_0) [];
          registryModule = addrOf (RegistryModule, Version1_5_0) [tokenAdminReg];
          weth9Contract = addrOf (WETH9, Version1_0_0) [];
          linkToken = addrOf (LinkToken, Version1_0_0) [];
          r = addrOf (Router, Version1_2_0) [weth9Contract, rmnProxy]
      in [(sel, rmn, (MockRMN, Version1_0_0)),
          (sel, rmnProxy, (ARMProxy, Version1_0_0)),
          (sel, tokenAdminReg, (TokenAdminRegistry, Version1_5_0)),
          (sel, registryModule, (RegistryModule, Version1_5_0)),
          (sel, weth9Contract, (WETH9, Version1_0_0)),
          (sel, linkToken, (LinkToken, Version1_0_0)),
          (sel, r, (Router, Version1_2_0))]
         @ (if multicall then [(sel, addrOf (Multicall3, Version1_0_0) [], (Multicall3, Version1_0_0))]
            else []))"

subsection \<open>The fan-out over chains\<close>

text \<open>
  \<open>e.Chains[sel]\<close> for a selector the environment does not know is Go's zero value:
  selector 0, nil key, nil client, nil confirm function. Whatever goes through it panics;
  the panic is the error value \<open>Panic\<close>, and what the model does after it has no meaning
  for the program.
\<close>

definition zeroChain :: Chain where
  "zeroChain =
     \<lparr>Selector = 0, DeployerKey = \<lparr>From = 0, NoSend = False\<rparr>,
      Confirm = (\<lambda>tx. Inl (Panic ''nil pointer dereference'')),
      Client = \<lparr>cl_Deploy = (\<lambda>tv args. Inl (Panic ''nil pointer dereference'')),
                cl_IsRegistryModule = (\<lambda>registry module. Inl (Panic ''nil pointer dereference'')),
                cl_Transact = (\<lambda>opts c. Inl (Panic ''nil pointer dereference''))\<rparr>\<rparr>"

definition chainOrZero :: "Environment \<Rightarrow> selector \<Rightarrow> Chain" where
  "chainOrZero e sel = (case Chains e sel of Some chain \<Rightarrow> chain | None \<Rightarrow> zeroChain)"

text \<open>
  \<open>errgroup.Group\<close> without a context: \<open>Go\<close> starts a task, \<open>Wait\<close> returns once
  every started task has returned, with the error of the task that failed first, and a
  failure stops no other task. The tasks write to disjoint selectors of the book and read
  only the environment, so their order does not change what is saved. The model runs the
  tasks at the join, one after the other in the order they were started; the error
  returned is then the first one in that order, which is one of the errors the real
  schedule may return.
\<close>

fun errgroupWait ::
  "(Run \<Rightarrow> (error + unit) \<times> Run) list \<Rightarrow> Run \<Rightarrow> (error + unit) \<times> Run" where
  "errgroupWait [] s = (Inr (), s)"
| "errgroupWait (task # tasks) s =
     (case task s of
        (r, s') \<Rightarrow>
          (case errgroupWait tasks s' of
             (r', s'') \<Rightarrow> ((case r of Inl err \<Rightarrow> Inl err | Inr u \<Rightarrow> r'), s'')))"

definition prerequisiteTask ::
  "DeployUSDC_fn \<Rightarrow> Environment \<Rightarrow> CCIPOnChainState \<Rightarrow> PrerequisiteOpt option list \<Rightarrow> Chain \<Rightarrow>
   Run \<Rightarrow> (error + unit) \<times> Run" where
  "prerequisiteTask DeployUSDC e state opts chain s =
     (case deployPrerequisiteContracts DeployUSDC e state chain opts s of
        (Inl err, s') \<Rightarrow> (Inl err, emit [Errorw ''Failed to deploy prerequisite contracts''] s')
      | (Inr u, s') \<Rightarrow> (Inr (), s'))"

definition deployPrerequisiteChainContracts ::
  "DeployUSDC_fn \<Rightarrow> Environment \<Rightarrow> selector list \<Rightarrow> PrerequisiteOpt option list \<Rightarrow>
   Run \<Rightarrow> (error + unit) \<times> Run" where
  "deployPrerequisiteChainContracts DeployUSDC e selectors opts s =
     (case env_LoadOnchainState e of
        Inl err \<Rightarrow> (Inl err, emit [Errorw ''Failed to load existing onchain state''] s)
      | Inr state \<Rightarrow>
          errgroupWait
            (map (\<lambda>sel. prerequisiteTask DeployUSDC e state opts (chainOrZero e sel)) selectors)
            (emit (map EffGo selectors @ [EffWait]) s))"

text \<open>
  Constants of the package \<open>internal\<close>, which is not among the sources.
\<close>

record Internal =
  CapabilityLabelledName :: string
  CapabilityVersion :: string
  CCIPCapabilityID :: hash

text \<open>
  The loop of \<open>deployChainContractsForChains\<close> (lines 640-657). It validates a selector
  and starts its task in the same iteration, and returns from inside the loop when a
  selector fails validation: the result is that error and the tasks started so far.
\<close>

fun startChainTasks ::
  "Environment \<Rightarrow> CCIPOnChainState \<Rightarrow> selector list \<Rightarrow>
   error option \<times> (selector \<times> Chain) list" where
  "startChainTasks e existingState [] = (None, [])"
| "startChainTasks e existingState (chainSel # rest) =
     (case Chains e chainSel of
        None \<Rightarrow> (Some (Errorf ''chain %d not found'' [ArgUint (unat chainSel)]), [])
      | Some chain \<Rightarrow>
          (if st_LinkToken (chainStateOf existingState chainSel) = None
              \<or> st_Weth9 (chainStateOf existingState chainSel) = None
           then (Some (Errorf ''fee tokens not found for chain %d'' [ArgUint (unat chainSel)]), [])
           else
             (case startChainTasks e existingState rest of
                (r, started) \<Rightarrow> (r, (chainSel, chain) # started))))"

definition chainTask ::
  "Environment \<Rightarrow> RMNHomeContract \<Rightarrow> selector \<times> Chain \<Rightarrow> Run \<Rightarrow> (error + unit) \<times> Run" where
  "chainTask e rmnHome t s =
     (case deployChainContracts e (snd t) rmnHome s of
        (Inl err, s') \<Rightarrow>
          (Inl (Errorf ''failed to deploy chain contracts for chain %d: %w''
                  [ArgUint (unat (fst t)), ArgError err]),
           emit [Errorw ''Failed to deploy chain contracts''] s')
      | (Inr u, s') \<Rightarrow> (Inr (), s'))"

text \<open>
  \<open>deployChainContractsForChains\<close>. \<open>ccip_home.NewCCIPHome\<close> only wraps the address in
  a binding; the comparison that follows calls \<open>Address()\<close> on the state's CCIPHome,
  which panics when that is nil. On the early return from the loop the started tasks
  are not joined: no \<open>EffWait\<close> is recorded and their effects, still under way, are
  not part of the returned run.
\<close>

definition deployChainContractsForChains ::
  "Internal \<Rightarrow> Environment \<Rightarrow> selector \<Rightarrow> selector list \<Rightarrow> Run \<Rightarrow> (error + unit) \<times> Run" where
  "deployChainContractsForChains internal e homeChainSel chainsToDeploy s =
     (case env_LoadOnchainState e of
        Inl err \<Rightarrow> (Inl err, emit [Errorw ''Failed to load existing onchain state''] s)
      | Inr existingState \<Rightarrow>
     (case st_CapabilityRegistry (chainStateOf existingState homeChainSel) of
        None \<Rightarrow>
          (Inl (Errorf ''capability registry not found'' []),
           emit [Errorw ''Failed to get capability registry''] s)
      | Some capReg \<Rightarrow>
     (case reg_GetHashedCapabilityId capReg (CapabilityLabelledName internal)
             (CapabilityVersion internal) of
        Inl err \<Rightarrow> (Inl err, emit [Errorw ''Failed to get hashed capability id''] s)
      | Inr cr \<Rightarrow>
     (if cr \<noteq> CCIPCapabilityID internal then
        (Inl (Errorf
           ''unexpected mismatch between calculated ccip capability id (%s) and expected ccip capability id constant (%s)''
           [ArgUint (unat cr), ArgUint (unat (CCIPCapabilityID internal))]), s)
      else
     (case reg_GetCapability capReg (CCIPCapabilityID internal) of
        Inl err \<Rightarrow> (Inl err, emit [Errorw ''Failed to get capability''] s)
      | Inr capability \<Rightarrow>
     (case st_CCIPHome (chainStateOf existingState homeChainSel) of
        None \<Rightarrow> (Inl (Panic ''nil pointer dereference''), s)
      | Some ccipHome \<Rightarrow>
     (if InfoConfigurationContract capability \<noteq> ccipHome then
        (Inl (Errorf ''ccip home address mismatch'' []), s)
      else
     (case st_RMNHome (chainStateOf existingState homeChainSel) of
        None \<Rightarrow>
          (Inl (Errorf ''rmn home not found'' []), emit [Errorw ''Failed to get rmn home''] s)
      | Some rmnHome \<Rightarrow>
     (case startChainTasks e existingState chainsToDeploy of
        (Some err, started) \<Rightarrow> (Inl err, emit (map (EffGo \<circ> fst) started) s)
      | (None, started) \<Rightarrow>
          (case errgroupWait (map (chainTask e rmnHome) started)
                  (emit (map (EffGo \<circ> fst) started @ [EffWait]) s) of
             (Inl err, s') \<Rightarrow> (Inl err, emit [Errorw ''Failed to deploy chain contracts''] s')
           | (Inr u, s') \<Rightarrow> (Inr (), s')))))))))))"


subsection \<open>configureChain\<close>

record NewChainsConfig =
  HomeChainSel :: selector
  FeedChainSel :: selector
  ChainsToDeploy :: "selector list"
  OCRSecretsIsEmpty :: bool
  USDCEnabledChainMap :: "selector \<rightharpoonup> bool"

text \<open>
  \<open>AddChainConfig\<close> and \<open>AddDON\<close> are functions of the package that are not among the
  sources; both write to the home chain. They are parameters giving the error returned
  (or nil): for the home chain, the CCIPHome and the chain configured, with the peer ids
  and, for \<open>AddDON\<close>, the registry, the RMN home, the off-ramp, the feed chain, the
  nodes and whether USDC observers are configured.
\<close>

type_synonym AddChainConfig_fn = "Chain \<Rightarrow> address \<Rightarrow> selector \<Rightarrow> hash list \<Rightarrow> error option"

type_synonym AddDON_fn =
  "CapabilitiesRegistry \<Rightarrow> address \<Rightarrow> address \<Rightarrow> address \<Rightarrow> selector \<Rightarrow> Chain \<Rightarrow> Chain \<Rightarrow>
   Node list \<Rightarrow> bool \<Rightarrow> error option"

definition NonBootstraps :: "Node list \<Rightarrow> Node list" where
  "NonBootstraps nodes = filter (\<lambda>n. \<not> IsBootstrap n) nodes"

definition PeerIDs :: "Node list \<Rightarrow> hash list" where
  "PeerIDs nodes = map PeerID nodes"

text \<open>
  The loop over \<open>c.ChainsToDeploy\<close> (lines 507-557). The chain handle is looked up
  without a test, and the state is looked up under the handle's selector; each chain is
  checked when its turn comes, after the chains before it have been configured.
\<close>

fun configureLoop ::
  "AddChainConfig_fn \<Rightarrow> AddDON_fn \<Rightarrow> Environment \<Rightarrow> NewChainsConfig \<Rightarrow> CCIPOnChainState \<Rightarrow>
   CapabilitiesRegistry \<Rightarrow> address \<Rightarrow> RMNHomeContract \<Rightarrow> Node list \<Rightarrow> selector list \<Rightarrow>
   Run \<Rightarrow> (error + unit) \<times> Run" where
  "configureLoop AddChainConfig AddDON e c existingState capReg ccipHome rmnHome nodes [] s =
     (Inr (), s)"
| "configureLoop AddChainConfig AddDON e c existingState capReg ccipHome rmnHome nodes
     (chainSel # rest) s =
     (let chain = chainOrZero e chainSel in
      case st_Chains existingState (Selector chain) of
        None \<Rightarrow>
          (Inl (Errorf ''chain state not found for chain %d'' [ArgUint (unat (Selector chain))]),
           s)
      | Some chainState \<Rightarrow>
     (case st_OffRamp chainState of
        None \<Rightarrow>
          (Inl (Errorf ''off ramp not found for chain %d'' [ArgUint (unat (Selector chain))]), s)
      | Some offRamp \<Rightarrow>
     (case AddChainConfig (chainOrZero e (HomeChainSel c)) ccipHome (Selector chain)
             (PeerIDs (NonBootstraps nodes)) of
        Some err \<Rightarrow> (Inl err, emit [EffAddChainConfig (HomeChainSel c) (Selector chain)] s)
      | None \<Rightarrow>
     (case AddDON capReg ccipHome (rh_Address rmnHome) offRamp (FeedChainSel c) chain
             (chainOrZero e (HomeChainSel c)) (NonBootstraps nodes)
             (USDCEnabledChainMap c chainSel = Some True) of
        Some err \<Rightarrow>
          (Inl err,
           emit [EffAddChainConfig (HomeChainSel c) (Selector chain),
                 EffAddDON (HomeChainSel c) (Selector chain), Errorw ''Failed to add DON''] s)
      | None \<Rightarrow>
          configureLoop AddChainConfig AddDON e c existingState capReg ccipHome rmnHome nodes rest
            (emit [EffAddChainConfig (HomeChainSel c) (Selector chain),
                   EffAddDON (HomeChainSel c) (Selector chain)] s)))))"

text \<open>
  \<open>configureChain\<close>. When \<open>NodeInfo\<close> returns no node and no error, the function
  returns that nil error.
\<close>

definition configureChain ::
  "AddChainConfig_fn \<Rightarrow> AddDON_fn \<Rightarrow> Environment \<Rightarrow> NewChainsConfig \<Rightarrow> Run \<Rightarrow>
   (error + unit) \<times> Run" where
  "configureChain AddChainConfig AddDON e c s =
     (if OCRSecretsIsEmpty c then (Inl (Errorf ''OCR secrets are empty'' []), s)
      else
     (case env_NodeInfo e of
        (nodes, err) \<Rightarrow>
     (if err \<noteq> None \<or> length nodes = 0 then
        ((case err of Some x \<Rightarrow> Inl x | None \<Rightarrow> Inr ()),
         emit [Errorw ''Failed to get node info''] s)
      else
     (case env_LoadOnchainState e of
        Inl err \<Rightarrow> (Inl err, emit [Errorw ''Failed to load existing onchain state''] s)
      | Inr existingState \<Rightarrow>
     (case st_CapabilityRegistry (chainStateOf existingState (HomeChainSel c)) of
        None \<Rightarrow>
          (Inl (Errorf ''capability registry not found'' []),
           emit [Errorw ''Failed to get capability registry''] s)
      | Some capReg \<Rightarrow>
     (case st_CCIPHome (chainStateOf existingState (HomeChainSel c)) of
        None \<Rightarrow>
          (Inl (Errorf ''ccip home not found'' []), emit [Errorw ''Failed to get ccip home''] s)
      | Some ccipHome \<Rightarrow>
     (case st_RMNHome (chainStateOf existingState (HomeChainSel c)) of
        None \<Rightarrow>
          (Inl (Errorf ''rmn home not found'' []), emit [Errorw ''Failed to get rmn home''] s)
      | Some rmnHome \<Rightarrow>
          configureLoop AddChainConfig AddDON e c existingState capReg ccipHome rmnHome nodes
            (ChainsToDeploy c) s)))))))"

text \<open>Which environments an error names: the selectors among its format arguments.\<close>

fun namedSelectors :: "error \<Rightarrow> nat list" where
  "namedSelectors (Errorf fmt args) = concat (map (\<lambda>a. case a of ArgUint n \<Rightarrow> [n] | _ \<Rightarrow> []) args)"
| "namedSelectors _ = []"

text \<open>
  For stating what the loop has done when it stops: a target chain is configured without
  error when its state and off-ramp are known and both helpers return nil; configuring
  the chains \<open>done\<close> leaves two effects per chain.
\<close>

definition chainConfigures ::
  "AddChainConfig_fn \<Rightarrow> AddDON_fn \<Rightarrow> Environment \<Rightarrow> NewChainsConfig \<Rightarrow> CCIPOnChainState \<Rightarrow>
   CapabilitiesRegistry \<Rightarrow> address \<Rightarrow> RMNHomeContract \<Rightarrow> Node list \<Rightarrow> selector \<Rightarrow> bool" where
  "chainConfigures AddChainConfig AddDON e c existingState capReg ccipHome rmnHome nodes chainSel =
     (case st_Chains existingState (Selector (chainOrZero e chainSel)) of
        None \<Rightarrow> False
      | Some chainState \<Rightarrow>
          (case st_OffRamp chainState of
             None \<Rightarrow> False
           | Some offRamp \<Rightarrow>
               AddChainConfig (chainOrZero e (HomeChainSel c)) ccipHome
                 (Selector (chainOrZero e chainSel)) (PeerIDs (NonBootstraps nodes)) = None
               \<and> AddDON capReg ccipHome (rh_Address rmnHome) offRamp (FeedChainSel c)
                   (chainOrZero e chainSel) (chainOrZero e (HomeChainSel c)) (NonBootstraps nodes)
                   (USDCEnabledChainMap c chainSel = Some True) = None))"

definition configuredEffects :: "Environment \<Rightarrow> NewChainsConfig \<Rightarrow> selector list \<Rightarrow> effect list" where
  "configuredEffects e c done =
     concat (map (\<lambda>d. [EffAddChainConfig (HomeChainSel c) (Selector (chainOrZero e d)),
                        EffAddDON (HomeChainSel c) (Selector (chainOrZero e d))]) done)"


section \<open>The Change Router in batched mode\<close>

text \<open>
  Modelled from the spec: the changeset \<open>AppendNodeCapabilities\<close>, the node update it
  performs and the proposal builder are not among the sources; only their test is. In
  batched mode the router "appends (target, encoded call) to the ChangeBatch for the
  calling Environment", and "multiple logically-related operations destined for the same
  Environment ... are accumulated into the same batch entry" (4.4); "operations appended
  to the same Environment's ChangeBatch preserve call order" (5). A submission goes to
  the batch of its environment when there is one and opens a batch otherwise.
\<close>

fun routerSubmit ::
  "selector \<Rightarrow> Operation \<Rightarrow> BatchChainOperation list \<Rightarrow> BatchChainOperation list" where
  "routerSubmit sel op [] = [\<lparr>ChainIdentifier = sel, Batch = [op]\<rparr>]"
| "routerSubmit sel op (b # bs) =
     (if ChainIdentifier b = sel then b\<lparr>Batch := Batch b @ [op]\<rparr> # bs
      else b # routerSubmit sel op bs)"

definition submitAll :: "(selector \<times> Operation) list \<Rightarrow> BatchChainOperation list" where
  "submitAll ops = foldl (\<lambda>bs p. routerSubmit (fst p) (snd p) bs) [] ops"

text \<open>
  Modelled from the spec: a GovernanceProposal is "one or more ChangeBatches bundled for
  external multi-signature approval" (3); a request that submitted nothing proposes
  nothing.
\<close>

record GovernanceProposal =
  Transactions :: "BatchChainOperation list"

definition buildProposals :: "(selector \<times> Operation) list \<Rightarrow> GovernanceProposal list" where
  "buildProposals ops = (if ops = [] then [] else [\<lparr>Transactions = submitAll ops\<rparr>])"

definition opsFor :: "selector \<Rightarrow> (selector \<times> Operation) list \<Rightarrow> Operation list" where
  "opsFor sel ops = map snd (filter (\<lambda>p. fst p = sel) ops)"

text \<open>
  Modelled from the spec: an \<open>AppendNodeCapabilities\<close> request in batched mode adds the
  capabilities, through \<open>AddCapabilities\<close> of the sources, and then updates the node
  registrations ("add capabilities" and "update node registrations", 4.4); both
  operations are submitted for the registry's chain. \<open>updateNodes\<close> is the operation of
  the node update.
\<close>

definition AppendNodeCapabilitiesBatched ::
  "(error \<Rightarrow> error) \<Rightarrow> ContractSet \<Rightarrow> Chain \<Rightarrow> CapabilitiesRegistryCapability list \<Rightarrow>
   Operation \<Rightarrow> error + GovernanceProposal list" where
  "AppendNodeCapabilitiesBatched DecodeErr contractSet chain capabilities updateNodes =
     (case fst (AddCapabilities DecodeErr contractSet chain capabilities True) of
        Inl err \<Rightarrow> Inl err
      | Inr batch \<Rightarrow>
          Inr (buildProposals
                 ((case batch of
                     None \<Rightarrow> []
                   | Some b \<Rightarrow> map (\<lambda>op. (ChainIdentifier b, op)) (Batch b))
                  @ [(Selector chain, updateNodes)])))"


subsection \<open>Concrete inputs for the changeset\<close>

text \<open>
  Two chains with the selectors of the test chains 90000001 and 90000002. Their client
  deploys every contract (at an address that tells the types apart), knows the registry
  module or not as the flag says, and accepts every transaction.
\<close>

fun sampleAddress :: "ContractType \<Rightarrow> address" where
  "sampleAddress MockRMN = 0xA001"
| "sampleAddress ARMProxy = 0xA002"
| "sampleAddress TokenAdminRegistry = 0xA003"
| "sampleAddress RegistryModule = 0xA004"
| "sampleAddress WETH9 = 0xA005"
| "sampleAddress LinkToken = 0xA006"
| "sampleAddress Router = 0xA007"
| "sampleAddress Multicall3 = 0xA008"
| "sampleAddress USDCToken = 0xA009"
| "sampleAddress USDCMockTransmitter = 0xA00A"
| "sampleAddress USDCTokenMessenger = 0xA00B"
| "sampleAddress USDCTokenPool = 0xA00C"
| "sampleAddress t = 0xA0FF"

definition sampleClient :: "bool \<Rightarrow> Client" where
  "sampleClient moduleAdded =
     \<lparr>cl_Deploy = (\<lambda>tv args. Inr (sampleAddress (fst tv))),
      cl_IsRegistryModule = (\<lambda>registry module. Inr moduleAdded),
      cl_Transact = (\<lambda>opts c. Inr \<lparr>tx_Hash = ''0x02'', tx_Data = []\<rparr>)\<rparr>"

definition chainA :: Chain where
  "chainA =
     \<lparr>Selector = 909606746561742123, DeployerKey = \<lparr>From = 0xD1, NoSend = False\<rparr>,
      Confirm = (\<lambda>tx. Inr 1), Client = sampleClient True\<rparr>"

definition chainB :: Chain where
  "chainB =
     \<lparr>Selector = 5548718428018410741, DeployerKey = \<lparr>From = 0xD1, NoSend = False\<rparr>,
      Confirm = (\<lambda>tx. Inr 1), Client = sampleClient False\<rparr>"

definition sampleRMNHome :: RMNHomeContract where
  "sampleRMNHome = \<lparr>rh_Address = 0xB013, rh_GetActiveDigest = Inr 0xD16E57\<rparr>"

definition sampleInternal :: Internal where
  "sampleInternal =
     \<lparr>CapabilityLabelledName = ''ccip'', CapabilityVersion = ''v1.0.0'',
      CCIPCapabilityID = sampleHash ''ccip'' ''v1.0.0''\<rparr>"

definition homeRegistry :: CapabilitiesRegistry where
  "homeRegistry =
     sampleRegistry\<lparr>reg_GetCapability :=
       (\<lambda>h. Inr \<lparr>HashedId = h, InfoLabelledName = ''ccip'', InfoVersion = ''v1.0.0'',
                  InfoConfigurationContract = 0xB012, IsDeprecated = False\<rparr>)\<rparr>"

text \<open>The state of a chain on which every contract the two deployers look for is known.\<close>

definition deployedChainState :: CCIPChainState where
  "deployedChainState =
     \<lparr>st_Weth9 = Some 0xB001, st_LinkToken = Some 0xB002, st_TokenAdminRegistry = Some 0xB003,
      st_RegistryModule = Some 0xB004, st_RMNProxyExisting = Some 0xB005,
      st_RMNProxyNew = Some 0xB006, st_Router = Some 0xB007, st_Multicall3 = Some 0xB008,
      st_Receiver = Some 0xB009, st_RMNRemote = Some 0xB00A, st_TestRouter = Some 0xB00B,
      st_NonceManager = Some 0xB00C, st_FeeQuoter = Some 0xB00D, st_OnRamp = Some 0xB00E,
      st_OffRamp = Some 0xB00F, st_Timelock = Some 0xB010,
      st_CapabilityRegistry = Some homeRegistry, st_CCIPHome = Some 0xB012,
      st_RMNHome = Some sampleRMNHome\<rparr>"

definition deployedState :: CCIPOnChainState where
  "deployedState = \<lparr>st_Chains = [909606746561742123 \<mapsto> deployedChainState]\<rparr>"

text \<open>
  An environment of the two chains in which chain A is deployed (its records are in the
  existing book and in the loaded state) and chain B is empty.
\<close>

definition sampleEnv :: Environment where
  "sampleEnv =
     \<lparr>Chains = [909606746561742123 \<mapsto> chainA, 5548718428018410741 \<mapsto> chainB],
      ExistingAddresses =
        [(909606746561742123, 0xB001, (WETH9, Version1_0_0)),
         (909606746561742123, 0xB002, (LinkToken, Version1_0_0)),
         (909606746561742123, 0xB003, (TokenAdminRegistry, Version1_5_0)),
         (909606746561742123, 0xB004, (RegistryModule, Version1_5_0)),
         (909606746561742123, 0xB005, (ARMProxy, Version1_0_0)),
         (909606746561742123, 0xB007, (Router, Version1_2_0))],
      env_LoadOnchainState = Inr deployedState,
      env_NodeInfo = ([\<lparr>PeerID = 0x11, IsBootstrap = False\<rparr>], None)\<rparr>"

definition emptyRun :: Run where
  "emptyRun = \<lparr>run_ab = [], run_trace = []\<rparr>"

text \<open>
  The environment of a second run on chain A with USDC enabled: the existing book is
  that of the first environment merged with the four USDC records a first run saved.
\<close>

definition redeployedEnv :: Environment where
  "redeployedEnv =
     sampleEnv\<lparr>ExistingAddresses :=
       Merge (ExistingAddresses sampleEnv)
         [(909606746561742123, 0xA009, (USDCToken, Version1_0_0)),
          (909606746561742123, 0xA00A, (USDCMockTransmitter, Version1_0_0)),
          (909606746561742123, 0xA00B, (USDCTokenMessenger, Version1_0_0)),
          (909606746561742123, 0xA00C, (USDCTokenPool, Version1_0_0))]\<rparr>"

text \<open>Stand-ins for the two configuration helpers: both succeed.\<close>

definition sampleAddChainConfig :: AddChainConfig_fn where
  "sampleAddChainConfig home ccipHome sel peers = None"

definition sampleAddDON :: AddDON_fn where
  "sampleAddDON capReg ccipHome rmnHome offRamp feed chain home nodes usdc = None"

definition sampleConfig :: NewChainsConfig where
  "sampleConfig =
     \<lparr>HomeChainSel = 909606746561742123, FeedChainSel = 909606746561742123,
      ChainsToDeploy = [909606746561742123, 5548718428018410741],
      OCRSecretsIsEmpty = False, USDCEnabledChainMap = Map.empty\<rparr>"

text \<open>The same environment with nothing known on any chain.\<close>

definition blankEnv :: Environment where
  "blankEnv = sampleEnv\<lparr>env_LoadOnchainState := Inr \<lparr>st_Chains = Map.empty\<rparr>\<rparr>"

section \<open>Properties of AddCapabilities\<close>

subsection \<open>Events and totality of the deduplicator\<close>

lemma dedupLoop_events_read:
  "e \<in> set (snd (dedupLoop registry existingByID seen out cs)) \<Longrightarrow> readsRegistry e"
proof (induction cs arbitrary: seen out)
  case Nil
  then show ?case by simp
next
  case (Cons c cs)
  show ?case
  proof (cases "reg_GetHashedCapabilityId registry (LabelledName c) (Version c)")
    case (Inl err)
    with Cons.prems show ?thesis by simp
  next
    case (Inr h)
    let ?rec = "if CapabilityID c \<in> seen
                 then dedupLoop registry existingByID seen out cs
                 else dedupLoop registry existingByID (insert (CapabilityID c) seen)
                        (if h \<notin> existingByID then out @ [c] else out) cs"
    from Cons.prems Inr have
      "e = EvGetHashedCapabilityId (LabelledName c) (Version c) \<or> e \<in> set (snd ?rec)"
      by (simp split: prod.splits if_splits)
    moreover have "e \<in> set (snd ?rec) \<Longrightarrow> readsRegistry e"
      using Cons.IH by (simp split: if_splits)
    ultimately show ?thesis by auto
  qed
qed

lemma dedupCapabilities_events_read:
  assumes "e \<in> set (snd (dedupCapabilities registry cs))"
  shows "readsRegistry e"
proof (cases "reg_GetCapabilities registry")
  case (Inl err)
  with assms show ?thesis by (simp add: dedupCapabilities_def)
next
  case (Inr existing)
  from assms Inr have
    "e = EvGetCapabilities \<or> e \<in> set (snd (dedupLoop registry (set (map HashedId existing)) {} [] cs))"
    by (simp add: dedupCapabilities_def split: prod.splits)
  then show ?thesis using dedupLoop_events_read by auto
qed

lemma readsRegistry_not_onchain: "readsRegistry e \<Longrightarrow> \<not> onchain e"
  by (cases e) simp_all

lemma dedupLoop_succeeds:
  "\<forall>c \<in> set cs. \<exists>h. reg_GetHashedCapabilityId registry (LabelledName c) (Version c) = Inr h
   \<Longrightarrow> \<exists>ds. fst (dedupLoop registry existingByID seen out cs) = Inr ds"
proof (induction cs arbitrary: seen out)
  case Nil
  then show ?case by simp
next
  case (Cons c cs)
  from Cons.prems obtain h where
    h: "reg_GetHashedCapabilityId registry (LabelledName c) (Version c) = Inr h"
    by auto
  from Cons.prems have rest:
    "\<forall>c \<in> set cs. \<exists>h. reg_GetHashedCapabilityId registry (LabelledName c) (Version c) = Inr h"
    by simp
  show ?case
    using h Cons.IH [OF rest] by (simp split: prod.splits) (metis fst_conv)
qed

lemma dedupCapabilities_succeeds:
  assumes "reg_GetCapabilities registry = Inr existing"
    and "\<forall>c \<in> set cs. \<exists>h. reg_GetHashedCapabilityId registry (LabelledName c) (Version c) = Inr h"
  shows "\<exists>ds. fst (dedupCapabilities registry cs) = Inr ds"
  using assms(1) dedupLoop_succeeds [OF assms(2), of "set (map HashedId existing)" "{}" "[]"]
  by (auto simp: dedupCapabilities_def split: prod.splits)

lemma sample_dedup:
  "dedupCapabilities sampleRegistry [capA, capB] =
     (Inr [capA, capB],
      [EvGetCapabilities, EvGetHashedCapabilityId ''capA'' ''0.4.2'',
       EvGetHashedCapabilityId ''capB'' ''3.16.0''])"
  by (simp add: dedupCapabilities_def sampleRegistry_def capA_def capB_def CapabilityID_def)

subsection \<open>The claims on AddCapabilities\<close>

text \<open>
  C9. For an empty requested capability list \<open>AddCapabilities\<close> returns a nil batch and
  a nil error and produces no event at all (no registry read, no transaction, no log),
  whatever the execution mode, the chain and the contract set.
\<close>

theorem AddCapabilities_empty:
  "AddCapabilities DecodeErr contractSet chain [] useMCMS = (Inr None, [])"
  by (simp add: AddCapabilities_def)

text \<open>
  C3. Batched (MCMS) mode, non-empty request, registry calls succeeding (the reads of the
  deduplicator return \<open>deduped\<close>, the transactor built with \<open>SimTransactOpts\<close> returns
  \<open>tx\<close>): \<open>AddCapabilities\<close> returns a batch operation whose chain identifier is the
  calling chain's selector and whose batch is exactly one operation with the registry
  address as target, \<open>tx\<close>'s data as data and value 0; and none of its events reaches
  the chain: nothing is submitted and no confirmation is waited for.
\<close>

theorem AddCapabilities_batched:
  assumes "capabilities \<noteq> []"
    and "cs_CapabilitiesRegistry contractSet = Some registry"
    and "fst (dedupCapabilities registry capabilities) = Inr deduped"
    and "reg_AddCapabilities registry SimTransactOpts deduped = Inr tx"
  shows "fst (AddCapabilities DecodeErr contractSet chain capabilities True) =
           Inr (Some \<lparr>ChainIdentifier = Selector chain,
                       Batch = [\<lparr>To = reg_Address registry, Data = tx_Data tx, Value = 0\<rparr>]\<rparr>)
         \<and> (\<forall>e \<in> set (snd (AddCapabilities DecodeErr contractSet chain capabilities True)).
               \<not> onchain e)"
proof -
  obtain evs where d: "dedupCapabilities registry capabilities = (Inr deduped, evs)"
    using assms(3) by (cases "dedupCapabilities registry capabilities") simp
  have run: "AddCapabilities DecodeErr contractSet chain capabilities True =
          (Inr (Some \<lparr>ChainIdentifier = Selector chain,
                       Batch = [\<lparr>To = reg_Address registry, Data = tx_Data tx, Value = 0\<rparr>]\<rparr>),
           evs @ [EvAddCapabilities SimTransactOpts deduped])"
    using assms(1,2,4) d by (simp add: AddCapabilities_def)
  have "\<forall>e \<in> set evs. \<not> onchain e"
    using dedupCapabilities_events_read [of _ registry capabilities] d
    by (auto dest: readsRegistry_not_onchain)
  then show ?thesis
    unfolding run by (simp add: SimTransactOpts_def)
qed

theorem AddCapabilities_batched_witness:
  "fst (AddCapabilities id \<lparr>cs_CapabilitiesRegistry = Some sampleRegistry\<rparr> sampleChain
          [capA, capB] True) =
     Inr (Some \<lparr>ChainIdentifier = 909606746561742123,
                 Batch = [\<lparr>To = 0xCA, Data = [5, 6], Value = 0\<rparr>]\<rparr>)
   \<and> list_all (\<lambda>e. \<not> onchain e)
        (snd (AddCapabilities id \<lparr>cs_CapabilitiesRegistry = Some sampleRegistry\<rparr> sampleChain
                [capA, capB] True))"
proof -
  have h1: "[capA, capB] \<noteq> []" by simp
  have h2: "cs_CapabilitiesRegistry \<lparr>cs_CapabilitiesRegistry = Some sampleRegistry\<rparr>
              = Some sampleRegistry" by simp
  have h3: "fst (dedupCapabilities sampleRegistry [capA, capB]) = Inr [capA, capB]"
    by (simp add: sample_dedup)
  have h4: "reg_AddCapabilities sampleRegistry SimTransactOpts [capA, capB] =
              Inr \<lparr>tx_Hash = ''0x01'', tx_Data = [5, 6]\<rparr>"
    by (simp add: sampleRegistry_def capA_def capB_def)
  from AddCapabilities_batched [OF h1 h2 h3 h4, of id sampleChain]
  show ?thesis
    by (simp add: sampleChain_def sampleRegistry_def list_all_iff)
qed

text \<open>
  C4. Direct mode. The returned batch is nil on every path, for every input. For a
  non-empty request whose deduplication succeeds, the transactor is called with the
  chain's deployer key; when that call fails an error is returned; otherwise the
  confirmation of the returned transaction is awaited next, an error is returned when it
  fails, and \<open>nil, nil\<close> is returned after the log line when it succeeds.
\<close>

theorem AddCapabilities_direct:
  "(\<forall>b. fst (AddCapabilities DecodeErr contractSet chain capabilities False) \<noteq> Inr (Some b))
   \<and> (capabilities \<noteq> [] \<and> cs_CapabilitiesRegistry contractSet = Some registry
        \<and> dedupCapabilities registry capabilities = (Inr deduped, evs) \<longrightarrow>
      (case reg_AddCapabilities registry (DeployerKey chain) deduped of
         Inl err \<Rightarrow>
           isl (fst (AddCapabilities DecodeErr contractSet chain capabilities False))
           \<and> snd (AddCapabilities DecodeErr contractSet chain capabilities False) =
               evs @ [EvAddCapabilities (DeployerKey chain) deduped]
       | Inr tx \<Rightarrow>
           (case Confirm chain tx of
              Inl err \<Rightarrow>
                isl (fst (AddCapabilities DecodeErr contractSet chain capabilities False))
                \<and> snd (AddCapabilities DecodeErr contractSet chain capabilities False) =
                    evs @ [EvAddCapabilities (DeployerKey chain) deduped, EvConfirm tx]
            | Inr blk \<Rightarrow>
                AddCapabilities DecodeErr contractSet chain capabilities False =
                  (Inr None,
                   evs @ [EvAddCapabilities (DeployerKey chain) deduped, EvConfirm tx,
                          EvInfo ''registered capabilities'']))))"
  by (auto simp: AddCapabilities_def Let_def split: option.splits sum.splits prod.splits)

theorem AddCapabilities_direct_witness:
  "AddCapabilities id \<lparr>cs_CapabilitiesRegistry = Some sampleRegistry\<rparr> sampleChain
     [capA, capB] False =
     (Inr None,
      [EvGetCapabilities, EvGetHashedCapabilityId ''capA'' ''0.4.2'',
       EvGetHashedCapabilityId ''capB'' ''3.16.0'',
       EvAddCapabilities \<lparr>From = 0xD1, NoSend = False\<rparr> [capA, capB],
       EvConfirm \<lparr>tx_Hash = ''0x01'', tx_Data = [5, 6]\<rparr>,
       EvInfo ''registered capabilities''])"
  using AddCapabilities_direct [of id "\<lparr>cs_CapabilitiesRegistry = Some sampleRegistry\<rparr>"
      sampleChain "[capA, capB]" sampleRegistry "[capA, capB]"
      "[EvGetCapabilities, EvGetHashedCapabilityId ''capA'' ''0.4.2'',
       EvGetHashedCapabilityId ''capB'' ''3.16.0'']"]
    sample_dedup
  by (simp add: sampleChain_def sampleRegistry_def capA_def capB_def)

subsection \<open>The deduplicator\<close>

text \<open>
  When every read succeeds and no name holds the character \<open>@\<close>, the loop of the
  source computes what section 4.5 words: \<open>CapabilityID\<close> then tells descriptors apart
  exactly as (name, version) does.
\<close>

lemma CapabilityID_inj_no_at:
  assumes "CapabilityID c = CapabilityID d"
    and "CHR ''@'' \<notin> set (LabelledName c)" and "CHR ''@'' \<notin> set (LabelledName d)"
  shows "LabelledName c = LabelledName d \<and> Version c = Version d"
proof -
  from assms(1) have eq: "LabelledName c @ CHR ''@'' # Version c = LabelledName d @ CHR ''@'' # Version d"
    by (simp add: CapabilityID_def)
  have "takeWhile (\<lambda>x. x \<noteq> CHR ''@'') (LabelledName c @ CHR ''@'' # Version c) = LabelledName c"
    using assms(2) by (auto simp: takeWhile_tail takeWhile_eq_all_conv)
  moreover have "takeWhile (\<lambda>x. x \<noteq> CHR ''@'') (LabelledName d @ CHR ''@'' # Version d) = LabelledName d"
    using assms(3) by (auto simp: takeWhile_tail takeWhile_eq_all_conv)
  ultimately have n: "LabelledName c = LabelledName d" using eq by simp
  with eq show ?thesis by simp
qed

lemma fst_dedupLoop_Cons:
  "reg_GetHashedCapabilityId registry (LabelledName c) (Version c) = Inr h \<Longrightarrow>
   fst (dedupLoop registry ex seen out (c # cs)) =
     (if CapabilityID c \<in> seen then fst (dedupLoop registry ex seen out cs)
      else fst (dedupLoop registry ex (insert (CapabilityID c) seen)
                  (if h \<notin> ex then out @ [c] else out) cs))"
  by (simp split: prod.splits)

lemma dedupLoop_refines_spec:
  assumes "\<forall>c \<in> set cs. reg_GetHashedCapabilityId registry (LabelledName c) (Version c) = Inr (hashOf c)"
    and "seen = CapabilityID ` set earlier"
    and "\<forall>c \<in> set (earlier @ cs). \<forall>d \<in> set (earlier @ cs).
           CapabilityID c = CapabilityID d \<longrightarrow>
           LabelledName c = LabelledName d \<and> Version c = Version d"
  shows "fst (dedupLoop registry registered seen out cs)
           = Inr (out @ dedupSpec hashOf registered earlier cs)"
  using assms
proof (induction cs arbitrary: seen out earlier)
  case Nil
  then show ?case by simp
next
  case (Cons c cs)
  have h: "reg_GetHashedCapabilityId registry (LabelledName c) (Version c) = Inr (hashOf c)"
    using Cons.prems(1) by simp
  have rest: "\<forall>c \<in> set cs. reg_GetHashedCapabilityId registry (LabelledName c) (Version c) = Inr (hashOf c)"
    using Cons.prems(1) by simp
  have inj: "\<forall>x \<in> set ((earlier @ [c]) @ cs). \<forall>d \<in> set ((earlier @ [c]) @ cs).
           CapabilityID x = CapabilityID d \<longrightarrow>
           LabelledName x = LabelledName d \<and> Version x = Version d"
    using Cons.prems(3) by (simp only: append_assoc append_Cons append_Nil)
  have seen_iff: "CapabilityID c \<in> seen \<longleftrightarrow>
      (\<exists>d \<in> set earlier. (LabelledName d, Version d) = (LabelledName c, Version c))"
  proof
    assume "CapabilityID c \<in> seen"
    then have "CapabilityID c \<in> CapabilityID ` set earlier"
      by (simp only: Cons.prems(2))
    then obtain d where d0: "CapabilityID c = CapabilityID d" "d \<in> set earlier"
      by (rule imageE)
    have d: "d \<in> set earlier" "CapabilityID d = CapabilityID c"
      using d0 by simp_all
    have dm: "d \<in> set (earlier @ c # cs)" using d(1) by simp
    have cm: "c \<in> set (earlier @ c # cs)" by simp
    have "LabelledName d = LabelledName c \<and> Version d = Version c"
      by (rule Cons.prems(3) [rule_format, OF dm cm d(2)])
    with d(1) show "\<exists>d \<in> set earlier. (LabelledName d, Version d) = (LabelledName c, Version c)"
      by blast
  next
    assume "\<exists>d \<in> set earlier. (LabelledName d, Version d) = (LabelledName c, Version c)"
    then obtain d where d: "d \<in> set earlier" "LabelledName d = LabelledName c" "Version d = Version c"
      by blast
    have eq: "CapabilityID c = CapabilityID d" using d(2,3) by (simp add: CapabilityID_def)
    show "CapabilityID c \<in> seen"
      unfolding Cons.prems(2) by (rule image_eqI [where f = CapabilityID and x = d, OF eq d(1)])
  qed
  show ?case
  proof (cases "CapabilityID c \<in> seen")
    case True
    have "insert (CapabilityID c) seen = seen"
      using True by (rule insert_absorb)
    then have s2: "seen = CapabilityID ` set (earlier @ [c])"
      unfolding Cons.prems(2) by simp
    have step: "fst (dedupLoop registry registered seen out (c # cs)) =
        fst (dedupLoop registry registered seen out cs)"
      using True by (simp only: fst_dedupLoop_Cons [OF h] if_True)
    have "\<not> (\<forall>d \<in> set earlier. (LabelledName d, Version d) \<noteq> (LabelledName c, Version c))"
      using True seen_iff by blast
    then have spec: "dedupSpec hashOf registered earlier (c # cs) =
        dedupSpec hashOf registered (earlier @ [c]) cs"
      by (simp only: dedupSpec.simps simp_thms if_False append_Nil)
    show ?thesis
      unfolding step spec by (rule Cons.IH [OF rest s2 inj])
  next
    case False
    have s2: "insert (CapabilityID c) seen = CapabilityID ` set (earlier @ [c])"
      unfolding Cons.prems(2) by simp
    have step: "fst (dedupLoop registry registered seen out (c # cs)) =
        fst (dedupLoop registry registered (insert (CapabilityID c) seen)
                  (if hashOf c \<notin> registered then out @ [c] else out) cs)"
      using False by (simp only: fst_dedupLoop_Cons [OF h] if_False)
    have none: "\<forall>d \<in> set earlier. (LabelledName d, Version d) \<noteq> (LabelledName c, Version c)"
      using False seen_iff by blast
    have spec: "out @ dedupSpec hashOf registered earlier (c # cs) =
        (if hashOf c \<notin> registered then out @ [c] else out)
          @ dedupSpec hashOf registered (earlier @ [c]) cs"
      using none by (simp only: dedupSpec.simps simp_thms if_True) simp
    show ?thesis
      unfolding step spec by (rule Cons.IH [OF rest s2 inj])
  qed
qed

lemma dedupCapabilities_refines_spec:
  assumes "reg_GetCapabilities registry = Inr existing"
    and "\<forall>c \<in> set cs. reg_GetHashedCapabilityId registry (LabelledName c) (Version c) = Inr (hashOf c)"
    and "\<forall>c \<in> set cs. CHR ''@'' \<notin> set (LabelledName c)"
  shows "fst (dedupCapabilities registry cs)
           = Inr (dedupSpec hashOf (set (map HashedId existing)) [] cs)"
proof -
  have inj: "\<forall>c \<in> set ([] @ cs). \<forall>d \<in> set ([] @ cs).
           CapabilityID c = CapabilityID d \<longrightarrow>
           LabelledName c = LabelledName d \<and> Version c = Version d"
  proof (intro ballI impI)
    fix c d
    assume m: "c \<in> set ([] @ cs)" "d \<in> set ([] @ cs)" and e: "CapabilityID c = CapabilityID d"
    have "CHR ''@'' \<notin> set (LabelledName c)" "CHR ''@'' \<notin> set (LabelledName d)"
      using m assms(3) by simp_all
    with e show "LabelledName c = LabelledName d \<and> Version c = Version d"
      by (rule CapabilityID_inj_no_at)
  qed
  have "fst (dedupLoop registry (set (map HashedId existing)) {} [] cs)
          = Inr ([] @ dedupSpec hashOf (set (map HashedId existing)) [] cs)"
    by (rule dedupLoop_refines_spec [OF assms(2) _ inj]) simp
  then show ?thesis
    using assms(1) by (auto simp: dedupCapabilities_def split: prod.splits)
qed

lemma dedupCapabilities_scenario:
  assumes "reg_GetCapabilities registry = Inr [info]"
    and "reg_GetHashedCapabilityId registry ''A'' ''1.0'' = Inr (HashedId info)"
    and "reg_GetHashedCapabilityId registry ''B'' ''1.0'' = Inr hB"
    and "hB \<noteq> HashedId info"
    and "LabelledName a = ''A''" "Version a = ''1.0''"
    and "LabelledName b = ''B''" "Version b = ''1.0''"
    and "LabelledName a' = ''A''" "Version a' = ''1.0''"
  shows "fst (dedupCapabilities registry [a, b, a']) = Inr [b]"
  using assms by (simp add: dedupCapabilities_def CapabilityID_def)

text \<open>
  C1. The deduplicator recognises a repeated descriptor by \<open>CapabilityID\<close>, the string
  \<open>name@version\<close>, which its comment calls a unique id. It is not: the request
  \<open>[(a@b, c), (a, b@c)]\<close> against a registry with nothing registered holds two
  descriptors that differ in name and in version and have different registry hashes, yet
  both have the id \<open>a@b@c\<close>, and the second one is dropped as if it repeated the first.
\<close>

theorem dedupCapabilities_id_collision:
  "fst (dedupCapabilities sampleRegistry [capAtInName, capAtInVersion]) = Inr [capAtInName]
   \<and> (LabelledName capAtInVersion, Version capAtInVersion)
       \<noteq> (LabelledName capAtInName, Version capAtInName)
   \<and> reg_GetHashedCapabilityId sampleRegistry (LabelledName capAtInVersion) (Version capAtInVersion)
       \<noteq> reg_GetHashedCapabilityId sampleRegistry (LabelledName capAtInName) (Version capAtInName)
   \<and> reg_GetCapabilities sampleRegistry = Inr []
   \<and> CapabilityID capAtInVersion = CapabilityID capAtInName"
  by (simp add: dedupCapabilities_def sampleRegistry_def capAtInName_def capAtInVersion_def
      CapabilityID_def sampleHash_def)

section \<open>Properties of the CCIP deployers\<close>

subsection \<open>Steps\<close>

lemma andThen_Inr: "andThen (Inr a, s) f = f a s"
  by (simp add: andThen_def)

lemma andThen_Inl: "andThen (Inl err, s) f = (Inl err, s)"
  by (simp add: andThen_def)

lemma emit_emit: "emit es (emit fs s) = emit (fs @ es) s"
  by (simp add: emit_def)

lemma emit_Nil: "emit [] s = s"
  by (simp add: emit_def)

lemma run_ab_emit: "run_ab (emit es s) = run_ab s"
  by (simp add: emit_def)

lemma run_trace_emit: "run_trace (emit es s) = run_trace s @ es"
  by (simp add: emit_def)

lemma deployIfNil_Some:
  "deployIfNil chain (Some addr) tv args failed deployed already s = (Inr addr, emit already s)"
  by (simp add: deployIfNil_def)

lemma deployIfNil_None_ok:
  "cl_Deploy (Client chain) tv args = Inr addr \<Longrightarrow>
   deployIfNil chain None tv args failed deployed already s =
     (Inr addr,
      emit [EffDeploy (Selector chain) tv args, Infow deployed]
        (s\<lparr>run_ab := run_ab s @ [(Selector chain, addr, tv)]\<rparr>))"
  by (simp add: deployIfNil_def DeployContract_def emit_def)


subsection \<open>deployChainContracts\<close>













subsection \<open>deployPrerequisiteContracts\<close>

text \<open>
  On a chain whose state holds every contract the function looks for, with the registry
  module already assigned, the Multicall3 contract present when the option asks for it,
  and the chain not enabled for USDC, nothing is deployed: the run only logs, and the
  address book is returned as it was.
\<close>

lemma deployPrerequisiteContracts_all_present:
  assumes "st_Chains state (Selector chain) = Some chainState"
    and "st_RMNProxyExisting chainState = Some rmnProxy"
    and "st_TokenAdminRegistry chainState = Some tokenAdminReg"
    and "st_RegistryModule chainState = Some registryModule"
    and "st_Weth9 chainState = Some weth9Contract"
    and "st_LinkToken chainState = Some linkTokenContract"
    and "st_Router chainState = Some r"
    and "cl_IsRegistryModule (Client chain) tokenAdminReg registryModule = Inr True"
    and "Multicall3Enabled (applyOpts opts) \<longrightarrow> st_Multicall3 chainState \<noteq> None"
    and "Selector chain \<notin> set (USDCEnabledChains (applyOpts opts))"
  shows "deployPrerequisiteContracts DeployUSDC e state chain opts s =
    (Inr (),
     emit [Infow ''tokenAdminRegistry already deployed'',
           Infow ''custom registry module already deployed'',
           Infow ''weth9 already deployed'',
           Infow ''linkToken already deployed'',
           Infow ''router already deployed'',
           Info ''ccip multicall already deployed''] s)"
proof -
  have arm: "\<And>s. assignRegistryModule chain tokenAdminReg registryModule s = (Inr (), s)"
    using assms(8) by (simp add: assignRegistryModule_def)
  have mc: "\<And>s. deployMulticall3 chain (Multicall3Enabled (applyOpts opts))
              (st_Multicall3 chainState) s =
            (Inr (), emit [Info ''ccip multicall already deployed''] s)"
    using assms(9) by (auto simp: deployMulticall3_def)
  show ?thesis
    using assms(1-7,10)
    by (simp add: deployPrerequisiteContracts_def Let_def chainStateOf_def
        deployRMNProxyExisting_def deployIfNil_Some arm mc deployUSDCIfEnabled_def
        andThen'_def andThen_Inr emit_emit)
qed

text \<open>
  On a chain where nothing is known (absent from the state, or present with every
  contract nil), with the client deploying at \<open>addrOf\<close> and the registry module
  assigned or assignable, the run returns no error and saves the records of the steps in
  order; when the chain is USDC-enabled and \<open>DeployUSDC\<close> succeeds there, saving
  \<open>usdcRecords\<close>, these follow.
\<close>

lemma deployUSDCIfEnabled_ok:
  assumes "\<not> isl (fst (DeployUSDC chain rmnProxy r s))"
    and "run_ab (snd (DeployUSDC chain rmnProxy r s)) = run_ab s @ usdcRecords"
  shows "fst (deployUSDCIfEnabled DeployUSDC chain True rmnProxy r s) = Inr ()
    \<and> run_ab (snd (deployUSDCIfEnabled DeployUSDC chain True rmnProxy r s)) =
        run_ab s @ usdcRecords"
proof -
  obtain res s' where d: "DeployUSDC chain rmnProxy r s = (res, s')"
    by (cases "DeployUSDC chain rmnProxy r s")
  from assms(1) d obtain contracts where res: "res = Inr contracts"
    by (cases res) simp_all
  from assms(2) d have "run_ab s' = run_ab s @ usdcRecords" by simp
  with d res show ?thesis
    by (simp add: deployUSDCIfEnabled_def emit_def)
qed

lemma deployPrerequisiteContracts_fresh:
  assumes "chainStateOf state (Selector chain) = zeroChainState"
    and "cl_Deploy (Client chain) = (\<lambda>tv args. Inr (addrOf tv args))"
    and "cl_IsRegistryModule (Client chain) (addrOf (TokenAdminRegistry, Version1_5_0) [])
           (addrOf (RegistryModule, Version1_5_0) [addrOf (TokenAdminRegistry, Version1_5_0) []])
         = Inr added"
    and "\<not> added \<Longrightarrow>
         cl_Transact (Client chain) (DeployerKey chain)
           (AddRegistryModule (addrOf (TokenAdminRegistry, Version1_5_0) [])
              (addrOf (RegistryModule, Version1_5_0) [addrOf (TokenAdminRegistry, Version1_5_0) []]))
           = Inr tx \<and> Confirm chain tx = Inr blk"
    and "Selector chain \<in> set (USDCEnabledChains (applyOpts opts)) \<Longrightarrow>
         \<forall>s1. \<not> isl (fst (DeployUSDC chain
                   (addrOf (ARMProxy, Version1_0_0) [addrOf (MockRMN, Version1_0_0) []])
                   (addrOf (Router, Version1_2_0)
                      [addrOf (WETH9, Version1_0_0) [],
                       addrOf (ARMProxy, Version1_0_0) [addrOf (MockRMN, Version1_0_0) []]])
                   s1))
              \<and> run_ab (snd (DeployUSDC chain
                   (addrOf (ARMProxy, Version1_0_0) [addrOf (MockRMN, Version1_0_0) []])
                   (addrOf (Router, Version1_2_0)
                      [addrOf (WETH9, Version1_0_0) [],
                       addrOf (ARMProxy, Version1_0_0) [addrOf (MockRMN, Version1_0_0) []]])
                   s1)) = run_ab s1 @ usdcRecords"
  shows "fst (deployPrerequisiteContracts DeployUSDC e state chain opts s) = Inr ()
    \<and> run_ab (snd (deployPrerequisiteContracts DeployUSDC e state chain opts s)) =
        run_ab s @ prerequisiteRecords (Selector chain) addrOf (Multicall3Enabled (applyOpts opts))
          @ (if Selector chain \<in> set (USDCEnabledChains (applyOpts opts)) then usdcRecords
             else [])"
proof -
  let ?p = "addrOf (ARMProxy, Version1_0_0) [addrOf (MockRMN, Version1_0_0) []]"
  let ?r = "addrOf (Router, Version1_2_0) [addrOf (WETH9, Version1_0_0) [], ?p]"
  have usdc: "\<And>s1. fst (deployUSDCIfEnabled DeployUSDC chain
                  (Selector chain \<in> set (USDCEnabledChains (applyOpts opts))) ?p ?r s1) = Inr ()
              \<and> run_ab (snd (deployUSDCIfEnabled DeployUSDC chain
                  (Selector chain \<in> set (USDCEnabledChains (applyOpts opts))) ?p ?r s1)) =
                 run_ab s1 @ (if Selector chain \<in> set (USDCEnabledChains (applyOpts opts))
                              then usdcRecords else [])"
  proof -
    fix s1
    show "fst (deployUSDCIfEnabled DeployUSDC chain
                  (Selector chain \<in> set (USDCEnabledChains (applyOpts opts))) ?p ?r s1) = Inr ()
              \<and> run_ab (snd (deployUSDCIfEnabled DeployUSDC chain
                  (Selector chain \<in> set (USDCEnabledChains (applyOpts opts))) ?p ?r s1)) =
                 run_ab s1 @ (if Selector chain \<in> set (USDCEnabledChains (applyOpts opts))
                              then usdcRecords else [])"
    proof (cases "Selector chain \<in> set (USDCEnabledChains (applyOpts opts))")
      case True
      from assms(5) [OF True] have
        a: "\<not> isl (fst (DeployUSDC chain ?p ?r s1))"
        and b: "run_ab (snd (DeployUSDC chain ?p ?r s1)) = run_ab s1 @ usdcRecords"
        by simp_all
      from deployUSDCIfEnabled_ok
             [where DeployUSDC = DeployUSDC and chain = chain and rmnProxy = "?p" and r = "?r"
                and s = s1 and usdcRecords = usdcRecords, OF a b] True
      show ?thesis by simp
    next
      case False
      then show ?thesis by (simp add: deployUSDCIfEnabled_def)
    qed
  qed
  have usdc1: "\<And>s1. fst (deployUSDCIfEnabled DeployUSDC chain
                  (Selector chain \<in> set (USDCEnabledChains (applyOpts opts))) ?p ?r s1) = Inr ()"
    and usdc2: "\<And>s1. run_ab (snd (deployUSDCIfEnabled DeployUSDC chain
                  (Selector chain \<in> set (USDCEnabledChains (applyOpts opts))) ?p ?r s1)) =
                 run_ab s1 @ (if Selector chain \<in> set (USDCEnabledChains (applyOpts opts))
                              then usdcRecords else [])"
    using usdc by simp_all
  show ?thesis
  proof (cases added)
    case True
    then show ?thesis
      using assms(1,2,3)
      by (simp add: deployPrerequisiteContracts_def Let_def zeroChainState_def
          deployRMNProxyExisting_def deployIfNil_def DeployContract_def NewTypeAndVersion_def
          andThen'_def andThen_def deployMulticall3_def usdc1 usdc2
          assignRegistryModule_def emit_def prerequisiteRecords_def)
  next
    case False
    then show ?thesis
      using assms(1,2,3) assms(4)
      by (simp add: deployPrerequisiteContracts_def Let_def zeroChainState_def
          deployRMNProxyExisting_def deployIfNil_def DeployContract_def NewTypeAndVersion_def
          andThen'_def andThen_def deployMulticall3_def usdc1 usdc2
          assignRegistryModule_def emit_def prerequisiteRecords_def)
  qed
qed

text \<open>
  C2. The USDC step has no test for an existing contract. Two consecutive runs of
  \<open>deployPrerequisiteContracts\<close> on chain A with USDC enabled for A, the state holding
  every contract the function looks for. The first run, in an environment whose book has
  no USDC record, saves the four USDC records. The second run is made in the environment
  whose existing book is the first one's merged with what the first run saved, so it
  holds the four USDC records beside the six of the prerequisites. On that state, for
  every environment and every \<open>DeployUSDC\<close>, the run skips the seven guarded steps,
  calls \<open>DeployUSDC\<close> on the book it was given and returns what the call returns; with
  \<open>DeployUSDC\<close> as modelled, the second run deploys the four contracts again and
  saves four new records.
\<close>

theorem deployPrerequisiteContracts_redeploys_usdc:
  "run_ab (snd (deployPrerequisiteContracts DeployUSDC_modelled sampleEnv deployedState chainA
             [Some (WithUSDCChains [909606746561742123])] emptyRun)) =
     [(909606746561742123, 0xA009, (USDCToken, Version1_0_0)),
      (909606746561742123, 0xA00A, (USDCMockTransmitter, Version1_0_0)),
      (909606746561742123, 0xA00B, (USDCTokenMessenger, Version1_0_0)),
      (909606746561742123, 0xA00C, (USDCTokenPool, Version1_0_0))]
   \<and> ExistingAddresses redeployedEnv =
       Merge (ExistingAddresses sampleEnv)
         (run_ab (snd (deployPrerequisiteContracts DeployUSDC_modelled sampleEnv deployedState
                         chainA [Some (WithUSDCChains [909606746561742123])] emptyRun)))
   \<and> map (snd \<circ> snd) (recordsOf (ExistingAddresses redeployedEnv) 909606746561742123) =
       [(WETH9, Version1_0_0), (LinkToken, Version1_0_0), (TokenAdminRegistry, Version1_5_0),
        (RegistryModule, Version1_5_0), (ARMProxy, Version1_0_0), (Router, Version1_2_0),
        (USDCToken, Version1_0_0), (USDCMockTransmitter, Version1_0_0),
        (USDCTokenMessenger, Version1_0_0), (USDCTokenPool, Version1_0_0)]
   \<and> (\<forall>DeployUSDC e.
         deployPrerequisiteContracts DeployUSDC e deployedState chainA
           [Some (WithUSDCChains [909606746561742123])] emptyRun =
         (case DeployUSDC chainA 0xB005 0xB007
                 \<lparr>run_ab = [],
                  run_trace =
                    [Infow ''tokenAdminRegistry already deployed'',
                     Infow ''custom registry module already deployed'',
                     Infow ''weth9 already deployed'',
                     Infow ''linkToken already deployed'',
                     Infow ''router already deployed'',
                     Info ''ccip multicall already deployed'']\<rparr> of
            (Inl err1, s') \<Rightarrow> (Inl err1, s')
          | (Inr contracts, s') \<Rightarrow> (Inr (), emit [Infow ''Deployed USDC contracts''] s')))
   \<and> deployPrerequisiteContracts DeployUSDC_modelled redeployedEnv deployedState chainA
         [Some (WithUSDCChains [909606746561742123])] emptyRun =
       (Inr (),
        \<lparr>run_ab =
           [(909606746561742123, 0xA009, (USDCToken, Version1_0_0)),
            (909606746561742123, 0xA00A, (USDCMockTransmitter, Version1_0_0)),
            (909606746561742123, 0xA00B, (USDCTokenMessenger, Version1_0_0)),
            (909606746561742123, 0xA00C, (USDCTokenPool, Version1_0_0))],
         run_trace =
           [Infow ''tokenAdminRegistry already deployed'',
            Infow ''custom registry module already deployed'',
            Infow ''weth9 already deployed'',
            Infow ''linkToken already deployed'',
            Infow ''router already deployed'',
            Info ''ccip multicall already deployed'',
            EffDeploy 909606746561742123 (USDCToken, Version1_0_0) [],
            EffDeploy 909606746561742123 (USDCMockTransmitter, Version1_0_0) [],
            EffDeploy 909606746561742123 (USDCTokenMessenger, Version1_0_0) [0xA00A],
            EffDeploy 909606746561742123 (USDCTokenPool, Version1_0_0)
              [0xA00B, 0xA009, 0xB005, 0xB007],
            Infow ''Deployed USDC contracts'']\<rparr>)"
proof -
  have call: "\<And>DeployUSDC e.
         deployPrerequisiteContracts DeployUSDC e deployedState chainA
           [Some (WithUSDCChains [909606746561742123])] emptyRun =
         (case DeployUSDC chainA 0xB005 0xB007
                 \<lparr>run_ab = [],
                  run_trace =
                    [Infow ''tokenAdminRegistry already deployed'',
                     Infow ''custom registry module already deployed'',
                     Infow ''weth9 already deployed'',
                     Infow ''linkToken already deployed'',
                     Infow ''router already deployed'',
                     Info ''ccip multicall already deployed'']\<rparr> of
            (Inl err1, s') \<Rightarrow> (Inl err1, s')
          | (Inr contracts, s') \<Rightarrow> (Inr (), emit [Infow ''Deployed USDC contracts''] s'))"
    by (simp add: deployPrerequisiteContracts_def Let_def chainStateOf_def deployedState_def
        deployedChainState_def chainA_def sampleClient_def applyOpts_def WithUSDCChains_def
        deployRMNProxyExisting_def deployIfNil_def
        andThen'_def andThen_def deployUSDCIfEnabled_def deployMulticall3_def
        assignRegistryModule_def emit_def emptyRun_def)
  have model: "DeployUSDC_modelled chainA 0xB005 0xB007
                 \<lparr>run_ab = [],
                  run_trace =
                    [Infow ''tokenAdminRegistry already deployed'',
                     Infow ''custom registry module already deployed'',
                     Infow ''weth9 already deployed'',
                     Infow ''linkToken already deployed'',
                     Infow ''router already deployed'',
                     Info ''ccip multicall already deployed'']\<rparr> =
      (Inr (0xA009, 0xA00C, 0xA00B, 0xA00A),
       \<lparr>run_ab =
           [(909606746561742123, 0xA009, (USDCToken, Version1_0_0)),
            (909606746561742123, 0xA00A, (USDCMockTransmitter, Version1_0_0)),
            (909606746561742123, 0xA00B, (USDCTokenMessenger, Version1_0_0)),
            (909606746561742123, 0xA00C, (USDCTokenPool, Version1_0_0))],
         run_trace =
           [Infow ''tokenAdminRegistry already deployed'',
            Infow ''custom registry module already deployed'',
            Infow ''weth9 already deployed'',
            Infow ''linkToken already deployed'',
            Infow ''router already deployed'',
            Info ''ccip multicall already deployed'',
            EffDeploy 909606746561742123 (USDCToken, Version1_0_0) [],
            EffDeploy 909606746561742123 (USDCMockTransmitter, Version1_0_0) [],
            EffDeploy 909606746561742123 (USDCTokenMessenger, Version1_0_0) [0xA00A],
            EffDeploy 909606746561742123 (USDCTokenPool, Version1_0_0)
              [0xA00B, 0xA009, 0xB005, 0xB007]]\<rparr>)"
    by (simp add: DeployUSDC_modelled_def DeployContract_def NewTypeAndVersion_def chainA_def
        sampleClient_def andThen'_def andThen_def emit_def)
  have run: "\<And>e. deployPrerequisiteContracts DeployUSDC_modelled e deployedState chainA
         [Some (WithUSDCChains [909606746561742123])] emptyRun =
       (Inr (),
        \<lparr>run_ab =
           [(909606746561742123, 0xA009, (USDCToken, Version1_0_0)),
            (909606746561742123, 0xA00A, (USDCMockTransmitter, Version1_0_0)),
            (909606746561742123, 0xA00B, (USDCTokenMessenger, Version1_0_0)),
            (909606746561742123, 0xA00C, (USDCTokenPool, Version1_0_0))],
         run_trace =
           [Infow ''tokenAdminRegistry already deployed'',
            Infow ''custom registry module already deployed'',
            Infow ''weth9 already deployed'',
            Infow ''linkToken already deployed'',
            Infow ''router already deployed'',
            Info ''ccip multicall already deployed'',
            EffDeploy 909606746561742123 (USDCToken, Version1_0_0) [],
            EffDeploy 909606746561742123 (USDCMockTransmitter, Version1_0_0) [],
            EffDeploy 909606746561742123 (USDCTokenMessenger, Version1_0_0) [0xA00A],
            EffDeploy 909606746561742123 (USDCTokenPool, Version1_0_0)
              [0xA00B, 0xA009, 0xB005, 0xB007],
            Infow ''Deployed USDC contracts'']\<rparr>)"
    unfolding call model by (simp add: emit_def)
  have book: "ExistingAddresses redeployedEnv =
       Merge (ExistingAddresses sampleEnv)
         [(909606746561742123, 0xA009, (USDCToken, Version1_0_0)),
          (909606746561742123, 0xA00A, (USDCMockTransmitter, Version1_0_0)),
          (909606746561742123, 0xA00B, (USDCTokenMessenger, Version1_0_0)),
          (909606746561742123, 0xA00C, (USDCTokenPool, Version1_0_0))]"
    by (simp add: redeployedEnv_def)
  have held: "map (snd \<circ> snd) (recordsOf (ExistingAddresses redeployedEnv) 909606746561742123) =
       [(WETH9, Version1_0_0), (LinkToken, Version1_0_0), (TokenAdminRegistry, Version1_5_0),
        (RegistryModule, Version1_5_0), (ARMProxy, Version1_0_0), (Router, Version1_2_0),
        (USDCToken, Version1_0_0), (USDCMockTransmitter, Version1_0_0),
        (USDCTokenMessenger, Version1_0_0), (USDCTokenPool, Version1_0_0)]"
    by (simp add: redeployedEnv_def sampleEnv_def Merge_def recordsOf_def)
  have c1: "run_ab (snd (deployPrerequisiteContracts DeployUSDC_modelled sampleEnv deployedState
             chainA [Some (WithUSDCChains [909606746561742123])] emptyRun)) =
     [(909606746561742123, 0xA009, (USDCToken, Version1_0_0)),
      (909606746561742123, 0xA00A, (USDCMockTransmitter, Version1_0_0)),
      (909606746561742123, 0xA00B, (USDCTokenMessenger, Version1_0_0)),
      (909606746561742123, 0xA00C, (USDCTokenPool, Version1_0_0))]"
    by (simp add: run)
  have c2: "ExistingAddresses redeployedEnv =
       Merge (ExistingAddresses sampleEnv)
         (run_ab (snd (deployPrerequisiteContracts DeployUSDC_modelled sampleEnv deployedState
                         chainA [Some (WithUSDCChains [909606746561742123])] emptyRun)))"
    unfolding c1 by (rule book)
  show ?thesis
    by (intro conjI allI c1 c2 held call run)
qed

subsection \<open>The fan-out of the prerequisites\<close>

lemma errgroupWait_two:
  "errgroupWait [t1, t2] s =
     (case t1 s of (r1, s1) \<Rightarrow> (case t2 s1 of (r2, s2) \<Rightarrow>
        ((case r1 of Inl err \<Rightarrow> Inl err | Inr u \<Rightarrow> r2), s2)))"
  by (simp split: prod.splits sum.splits)

text \<open>
  C6 (amended). Two environments \<open>a\<close> and \<open>b\<close> of an environment set. \<open>a\<close> is already
  deployed: the loaded state holds its contracts, the registry module is assigned, the
  existing book holds records of it, and it is not USDC-enabled. \<open>b\<close> is empty: nothing
  is known of it in the state. On \<open>b\<close> deployments succeed, the registry module is
  assigned or its assignment succeeds, and, if \<open>b\<close> is USDC-enabled, \<open>DeployUSDC\<close>
  succeeds there and saves records \<open>usdcRecords\<close> under the selector of \<open>b\<close>. Then the
  fan-out over the two selectors, in either order, returns no error; the address book it
  fills grows by exactly the records of a fresh chain (followed by \<open>usdcRecords\<close> when
  \<open>b\<close> is USDC-enabled), all under the selector of \<open>b\<close>; and the existing book merged
  with it holds records of both environments. This covers the Multicall3 step with the
  option off, or on with the contract present on \<open>a\<close>.
\<close>

theorem prerequisite_fanout_two_environments:
  assumes "env_LoadOnchainState e = Inr state"
    and "Chains e (Selector a) = Some a" and "Chains e (Selector b) = Some b"
    and "recordsOf (ExistingAddresses e) (Selector a) \<noteq> []"
    and "st_Chains state (Selector a) = Some chainState"
    and "st_RMNProxyExisting chainState = Some rmnProxy"
    and "st_TokenAdminRegistry chainState = Some tokenAdminReg"
    and "st_RegistryModule chainState = Some registryModule"
    and "st_Weth9 chainState = Some weth9Contract"
    and "st_LinkToken chainState = Some linkTokenContract"
    and "st_Router chainState = Some r"
    and "cl_IsRegistryModule (Client a) tokenAdminReg registryModule = Inr True"
    and "Multicall3Enabled (applyOpts opts) \<longrightarrow> st_Multicall3 chainState \<noteq> None"
    and "Selector a \<notin> set (USDCEnabledChains (applyOpts opts))"
    and "chainStateOf state (Selector b) = zeroChainState"
    and "cl_Deploy (Client b) = (\<lambda>tv args. Inr (addrOf tv args))"
    and "cl_IsRegistryModule (Client b) (addrOf (TokenAdminRegistry, Version1_5_0) [])
           (addrOf (RegistryModule, Version1_5_0) [addrOf (TokenAdminRegistry, Version1_5_0) []])
         = Inr added"
    and "\<not> added \<longrightarrow>
         cl_Transact (Client b) (DeployerKey b)
           (AddRegistryModule (addrOf (TokenAdminRegistry, Version1_5_0) [])
              (addrOf (RegistryModule, Version1_5_0) [addrOf (TokenAdminRegistry, Version1_5_0) []]))
           = Inr tx \<and> Confirm b tx = Inr blk"
    and "Selector b \<in> set (USDCEnabledChains (applyOpts opts)) \<longrightarrow>
         (\<forall>s1. \<not> isl (fst (DeployUSDC b
                   (addrOf (ARMProxy, Version1_0_0) [addrOf (MockRMN, Version1_0_0) []])
                   (addrOf (Router, Version1_2_0)
                      [addrOf (WETH9, Version1_0_0) [],
                       addrOf (ARMProxy, Version1_0_0) [addrOf (MockRMN, Version1_0_0) []]])
                   s1))
              \<and> run_ab (snd (DeployUSDC b
                   (addrOf (ARMProxy, Version1_0_0) [addrOf (MockRMN, Version1_0_0) []])
                   (addrOf (Router, Version1_2_0)
                      [addrOf (WETH9, Version1_0_0) [],
                       addrOf (ARMProxy, Version1_0_0) [addrOf (MockRMN, Version1_0_0) []]])
                   s1)) = run_ab s1 @ usdcRecords)
         \<and> (\<forall>rec \<in> set usdcRecords. fst rec = Selector b)"
    and "selectors = [Selector a, Selector b] \<or> selectors = [Selector b, Selector a]"
    and "saved = prerequisiteRecords (Selector b) addrOf (Multicall3Enabled (applyOpts opts))
                 @ (if Selector b \<in> set (USDCEnabledChains (applyOpts opts)) then usdcRecords
                    else [])"
  shows "fst (deployPrerequisiteChainContracts DeployUSDC e selectors opts s) = Inr ()
    \<and> run_ab (snd (deployPrerequisiteChainContracts DeployUSDC e selectors opts s)) =
        run_ab s @ saved
    \<and> (\<forall>rec \<in> set saved. fst rec = Selector b)
    \<and> recordsOf (Merge (ExistingAddresses e)
          (run_ab (snd (deployPrerequisiteChainContracts DeployUSDC e selectors opts s))))
          (Selector a) \<noteq> []
    \<and> recordsOf (Merge (ExistingAddresses e)
          (run_ab (snd (deployPrerequisiteChainContracts DeployUSDC e selectors opts s))))
          (Selector b) \<noteq> []"
proof -
  let ?mc = "Multicall3Enabled (applyOpts opts)"
  let ?pre = "prerequisiteRecords (Selector b) addrOf ?mc"
  have A: "\<And>s. deployPrerequisiteContracts DeployUSDC e state a opts s =
    (Inr (),
     emit [Infow ''tokenAdminRegistry already deployed'',
           Infow ''custom registry module already deployed'',
           Infow ''weth9 already deployed'',
           Infow ''linkToken already deployed'',
           Infow ''router already deployed'',
           Info ''ccip multicall already deployed''] s)"
    by (rule deployPrerequisiteContracts_all_present
        [OF assms(5) assms(6) assms(7) assms(8) assms(9) assms(10) assms(11) assms(12) assms(13)
            assms(14)])
  have assign: "\<not> added \<Longrightarrow>
         cl_Transact (Client b) (DeployerKey b)
           (AddRegistryModule (addrOf (TokenAdminRegistry, Version1_5_0) [])
              (addrOf (RegistryModule, Version1_5_0) [addrOf (TokenAdminRegistry, Version1_5_0) []]))
           = Inr tx \<and> Confirm b tx = Inr blk"
    using assms(18) by simp
  have usdc: "Selector b \<in> set (USDCEnabledChains (applyOpts opts)) \<Longrightarrow>
         \<forall>s1. \<not> isl (fst (DeployUSDC b
                   (addrOf (ARMProxy, Version1_0_0) [addrOf (MockRMN, Version1_0_0) []])
                   (addrOf (Router, Version1_2_0)
                      [addrOf (WETH9, Version1_0_0) [],
                       addrOf (ARMProxy, Version1_0_0) [addrOf (MockRMN, Version1_0_0) []]])
                   s1))
              \<and> run_ab (snd (DeployUSDC b
                   (addrOf (ARMProxy, Version1_0_0) [addrOf (MockRMN, Version1_0_0) []])
                   (addrOf (Router, Version1_2_0)
                      [addrOf (WETH9, Version1_0_0) [],
                       addrOf (ARMProxy, Version1_0_0) [addrOf (MockRMN, Version1_0_0) []]])
                   s1)) = run_ab s1 @ usdcRecords"
    using assms(19) by simp
  have B: "\<And>s. fst (deployPrerequisiteContracts DeployUSDC e state b opts s) = Inr ()
    \<and> run_ab (snd (deployPrerequisiteContracts DeployUSDC e state b opts s)) = run_ab s @ saved"
    unfolding assms(21)
  proof (rule deployPrerequisiteContracts_fresh
      [where addrOf = addrOf and DeployUSDC = DeployUSDC and usdcRecords = usdcRecords
         and chain = b and tx = tx and blk = blk and added = added])
    show "chainStateOf state (Selector b) = zeroChainState" by (fact assms(15))
    show "cl_Deploy (Client b) = (\<lambda>tv args. Inr (addrOf tv args))" by (fact assms(16))
    show "cl_IsRegistryModule (Client b) (addrOf (TokenAdminRegistry, Version1_5_0) [])
           (addrOf (RegistryModule, Version1_5_0) [addrOf (TokenAdminRegistry, Version1_5_0) []])
         = Inr added" by (fact assms(17))
    show "cl_Transact (Client b) (DeployerKey b)
           (AddRegistryModule (addrOf (TokenAdminRegistry, Version1_5_0) [])
              (addrOf (RegistryModule, Version1_5_0) [addrOf (TokenAdminRegistry, Version1_5_0) []]))
           = Inr tx \<and> Confirm b tx = Inr blk" if "\<not> added"
      using that by (rule assign)
    show "\<forall>s1. \<not> isl (fst (DeployUSDC b
                   (addrOf (ARMProxy, Version1_0_0) [addrOf (MockRMN, Version1_0_0) []])
                   (addrOf (Router, Version1_2_0)
                      [addrOf (WETH9, Version1_0_0) [],
                       addrOf (ARMProxy, Version1_0_0) [addrOf (MockRMN, Version1_0_0) []]])
                   s1))
              \<and> run_ab (snd (DeployUSDC b
                   (addrOf (ARMProxy, Version1_0_0) [addrOf (MockRMN, Version1_0_0) []])
                   (addrOf (Router, Version1_2_0)
                      [addrOf (WETH9, Version1_0_0) [],
                       addrOf (ARMProxy, Version1_0_0) [addrOf (MockRMN, Version1_0_0) []]])
                   s1)) = run_ab s1 @ usdcRecords"
      if "Selector b \<in> set (USDCEnabledChains (applyOpts opts))"
      using that by (rule usdc)
  qed
  have TA: "\<And>s. prerequisiteTask DeployUSDC e state opts a s =
     (Inr (), emit [Infow ''tokenAdminRegistry already deployed'',
           Infow ''custom registry module already deployed'',
           Infow ''weth9 already deployed'',
           Infow ''linkToken already deployed'',
           Infow ''router already deployed'',
           Info ''ccip multicall already deployed''] s)"
    by (simp add: prerequisiteTask_def A)
  have TB: "\<And>s. fst (prerequisiteTask DeployUSDC e state opts b s) = Inr ()
    \<and> run_ab (snd (prerequisiteTask DeployUSDC e state opts b s)) = run_ab s @ saved"
  proof -
    fix s
    obtain res s' where d: "deployPrerequisiteContracts DeployUSDC e state b opts s = (res, s')"
      by (cases "deployPrerequisiteContracts DeployUSDC e state b opts s")
    from B [of s] d have "res = Inr ()" and "run_ab s' = run_ab s @ saved" by simp_all
    with d show "fst (prerequisiteTask DeployUSDC e state opts b s) = Inr ()
      \<and> run_ab (snd (prerequisiteTask DeployUSDC e state opts b s)) = run_ab s @ saved"
      by (simp add: prerequisiteTask_def)
  qed
  have sel: "\<forall>rec \<in> set saved. fst rec = Selector b"
    unfolding assms(21) using assms(19) by (auto simp: prerequisiteRecords_def Let_def)
  have pre_nonempty: "filter (\<lambda>rec. fst rec = Selector b) ?pre \<noteq> []"
    by (simp add: prerequisiteRecords_def Let_def)
  have run: "fst (deployPrerequisiteChainContracts DeployUSDC e selectors opts s) = Inr ()
    \<and> run_ab (snd (deployPrerequisiteChainContracts DeployUSDC e selectors opts s)) =
        run_ab s @ saved"
    using assms(20)
  proof
    assume o: "selectors = [Selector a, Selector b]"
    let ?s0 = "emit (map EffGo selectors @ [EffWait]) s"
    let ?s1 = "emit [Infow ''tokenAdminRegistry already deployed'',
           Infow ''custom registry module already deployed'',
           Infow ''weth9 already deployed'',
           Infow ''linkToken already deployed'',
           Infow ''router already deployed'',
           Info ''ccip multicall already deployed''] ?s0"
    obtain r2 s2 where t2: "prerequisiteTask DeployUSDC e state opts b ?s1 = (r2, s2)"
      by (cases "prerequisiteTask DeployUSDC e state opts b ?s1")
    from TB [of ?s1] t2 have r2: "r2 = Inr ()" and s2: "run_ab s2 = run_ab s @ saved"
      by (simp_all add: run_ab_emit)
    show ?thesis
      using assms(1,2,3) o t2 r2 s2
      by (simp add: deployPrerequisiteChainContracts_def chainOrZero_def errgroupWait_two TA)
  next
    assume o: "selectors = [Selector b, Selector a]"
    let ?s0 = "emit (map EffGo selectors @ [EffWait]) s"
    obtain r1 s1 where t1: "prerequisiteTask DeployUSDC e state opts b ?s0 = (r1, s1)"
      by (cases "prerequisiteTask DeployUSDC e state opts b ?s0")
    from TB [of ?s0] t1 have r1: "r1 = Inr ()" and s1: "run_ab s1 = run_ab s @ saved"
      by (simp_all add: run_ab_emit)
    show ?thesis
      using assms(1,2,3) o t1 r1 s1
      by (simp add: deployPrerequisiteChainContracts_def chainOrZero_def errgroupWait_two TA
          run_ab_emit)
  qed
  have mergeA: "recordsOf (Merge (ExistingAddresses e) (run_ab s @ saved)) (Selector a) \<noteq> []"
    using assms(4) by (simp add: recordsOf_def Merge_def)
  have mergeB: "recordsOf (Merge (ExistingAddresses e) (run_ab s @ saved)) (Selector b) \<noteq> []"
    unfolding assms(21) using pre_nonempty by (simp add: recordsOf_def Merge_def)
  show ?thesis
    using run sel mergeA mergeB by simp
qed

text \<open>
  The modelled \<open>DeployUSDC\<close> on the empty chain of the fixtures: from any run it
  succeeds and saves four records under that chain's selector.
\<close>

lemma DeployUSDC_modelled_chainB:
  "\<not> isl (fst (DeployUSDC_modelled chainB rmnProxy r s1))
   \<and> run_ab (snd (DeployUSDC_modelled chainB rmnProxy r s1)) =
       run_ab s1 @
       [(5548718428018410741, 0xA009, (USDCToken, Version1_0_0)),
        (5548718428018410741, 0xA00A, (USDCMockTransmitter, Version1_0_0)),
        (5548718428018410741, 0xA00B, (USDCTokenMessenger, Version1_0_0)),
        (5548718428018410741, 0xA00C, (USDCTokenPool, Version1_0_0))]"
  by (simp add: DeployUSDC_modelled_def DeployContract_def NewTypeAndVersion_def chainB_def
      sampleClient_def andThen'_def andThen_def emit_def)

text \<open>
  The amended statement at the two chains of the fixtures, with USDC enabled for the empty
  one: the run returns no error and saves eleven records, all under the empty chain.
\<close>

theorem prerequisite_fanout_two_environments_witness:
  "fst (deployPrerequisiteChainContracts DeployUSDC_modelled sampleEnv
          [909606746561742123, 5548718428018410741]
          [Some (WithMulticall3 False), Some (WithUSDCChains [5548718428018410741])] emptyRun)
     = Inr ()
   \<and> run_ab (snd (deployPrerequisiteChainContracts DeployUSDC_modelled sampleEnv
          [909606746561742123, 5548718428018410741]
          [Some (WithMulticall3 False), Some (WithUSDCChains [5548718428018410741])] emptyRun)) =
       [(5548718428018410741, 0xA001, (MockRMN, Version1_0_0)),
        (5548718428018410741, 0xA002, (ARMProxy, Version1_0_0)),
        (5548718428018410741, 0xA003, (TokenAdminRegistry, Version1_5_0)),
        (5548718428018410741, 0xA004, (RegistryModule, Version1_5_0)),
        (5548718428018410741, 0xA005, (WETH9, Version1_0_0)),
        (5548718428018410741, 0xA006, (LinkToken, Version1_0_0)),
        (5548718428018410741, 0xA007, (Router, Version1_2_0)),
        (5548718428018410741, 0xA009, (USDCToken, Version1_0_0)),
        (5548718428018410741, 0xA00A, (USDCMockTransmitter, Version1_0_0)),
        (5548718428018410741, 0xA00B, (USDCTokenMessenger, Version1_0_0)),
        (5548718428018410741, 0xA00C, (USDCTokenPool, Version1_0_0))]"
  using prerequisite_fanout_two_environments
    [where e = sampleEnv and state = deployedState and a = chainA and b = chainB
       and chainState = deployedChainState and rmnProxy = "0xB005" and tokenAdminReg = "0xB003"
       and registryModule = "0xB004" and weth9Contract = "0xB001"
       and linkTokenContract = "0xB002" and r = "0xB007"
       and opts = "[Some (WithMulticall3 False), Some (WithUSDCChains [5548718428018410741])]"
       and addrOf = "\<lambda>tv args. sampleAddress (fst tv)" and added = False
       and tx = "\<lparr>tx_Hash = ''0x02'', tx_Data = []\<rparr>" and blk = 1
       and usdcRecords =
         "[(5548718428018410741, 0xA009, (USDCToken, Version1_0_0)),
           (5548718428018410741, 0xA00A, (USDCMockTransmitter, Version1_0_0)),
           (5548718428018410741, 0xA00B, (USDCTokenMessenger, Version1_0_0)),
           (5548718428018410741, 0xA00C, (USDCTokenPool, Version1_0_0))]"
       and saved =
         "[(5548718428018410741, 0xA001, (MockRMN, Version1_0_0)),
           (5548718428018410741, 0xA002, (ARMProxy, Version1_0_0)),
           (5548718428018410741, 0xA003, (TokenAdminRegistry, Version1_5_0)),
           (5548718428018410741, 0xA004, (RegistryModule, Version1_5_0)),
           (5548718428018410741, 0xA005, (WETH9, Version1_0_0)),
           (5548718428018410741, 0xA006, (LinkToken, Version1_0_0)),
           (5548718428018410741, 0xA007, (Router, Version1_2_0)),
           (5548718428018410741, 0xA009, (USDCToken, Version1_0_0)),
           (5548718428018410741, 0xA00A, (USDCMockTransmitter, Version1_0_0)),
           (5548718428018410741, 0xA00B, (USDCTokenMessenger, Version1_0_0)),
           (5548718428018410741, 0xA00C, (USDCTokenPool, Version1_0_0))]"
       and selectors = "[909606746561742123, 5548718428018410741]"
       and DeployUSDC = DeployUSDC_modelled and s = emptyRun]
    DeployUSDC_modelled_chainB
  by (simp add: sampleEnv_def deployedState_def chainA_def chainB_def deployedChainState_def
      sampleClient_def applyOpts_def WithMulticall3_def WithUSDCChains_def recordsOf_def
      emptyRun_def prerequisiteRecords_def chainStateOf_def)

text \<open>
  Where the statement "after the run the book holds the contracts of both" fails. First,
  the default run: the book the fan-out fills holds no record of the deployed chain, and
  the existing book holds none of the empty chain, so neither book alone holds both.
  Second, the deployed chain with USDC enabled, its existing book already holding the four
  USDC records: the run saves four more records under the deployed chain.
\<close>

theorem prerequisite_fanout_counterexample:
  "recordsOf
     (run_ab (snd (deployPrerequisiteChainContracts DeployUSDC_modelled sampleEnv
        [909606746561742123, 5548718428018410741] [] emptyRun)))
     (Selector chainA) = []
   \<and> recordsOf (ExistingAddresses sampleEnv) (Selector chainB) = []
   \<and> map (snd \<circ> snd) (recordsOf (ExistingAddresses redeployedEnv) (Selector chainA)) =
       [(WETH9, Version1_0_0), (LinkToken, Version1_0_0), (TokenAdminRegistry, Version1_5_0),
        (RegistryModule, Version1_5_0), (ARMProxy, Version1_0_0), (Router, Version1_2_0),
        (USDCToken, Version1_0_0), (USDCMockTransmitter, Version1_0_0),
        (USDCTokenMessenger, Version1_0_0), (USDCTokenPool, Version1_0_0)]
   \<and> recordsOf
        (run_ab (snd (deployPrerequisiteChainContracts DeployUSDC_modelled redeployedEnv
           [909606746561742123, 5548718428018410741]
           [Some (WithUSDCChains [909606746561742123])] emptyRun)))
        (Selector chainA) =
       [(909606746561742123, 0xA009, (USDCToken, Version1_0_0)),
        (909606746561742123, 0xA00A, (USDCMockTransmitter, Version1_0_0)),
        (909606746561742123, 0xA00B, (USDCTokenMessenger, Version1_0_0)),
        (909606746561742123, 0xA00C, (USDCTokenPool, Version1_0_0))]"
  by (simp add: deployPrerequisiteChainContracts_def sampleEnv_def redeployedEnv_def
      chainOrZero_def prerequisiteTask_def Merge_def
      deployPrerequisiteContracts_def Let_def chainStateOf_def deployedState_def
      deployedChainState_def chainA_def chainB_def sampleClient_def applyOpts_def
      WithUSDCChains_def zeroChainState_def
      deployRMNProxyExisting_def deployIfNil_def DeployContract_def NewTypeAndVersion_def
      andThen'_def andThen_def deployUSDCIfEnabled_def deployMulticall3_def
      assignRegistryModule_def emit_def DeployUSDC_modelled_def emptyRun_def recordsOf_def)

section \<open>Properties of configureChain\<close>

lemma configureLoop_done:
  assumes "list_all (chainConfigures AddChainConfig AddDON e c st capReg ccipHome rmnHome nodes) done"
  shows "configureLoop AddChainConfig AddDON e c st capReg ccipHome rmnHome nodes (done @ rest) s =
         configureLoop AddChainConfig AddDON e c st capReg ccipHome rmnHome nodes rest
           (emit (configuredEffects e c done) s)"
  using assms
proof (induction "done" arbitrary: s)
  case Nil
  then show ?case by (simp add: configuredEffects_def emit_def)
next
  case (Cons d ds)
  from Cons.prems have d: "chainConfigures AddChainConfig AddDON e c st capReg ccipHome rmnHome nodes d"
    and ds: "list_all (chainConfigures AddChainConfig AddDON e c st capReg ccipHome rmnHome nodes) ds"
    by simp_all
  have step: "\<And>s. configureLoop AddChainConfig AddDON e c st capReg ccipHome rmnHome nodes
                 ((d # ds) @ rest) s =
      configureLoop AddChainConfig AddDON e c st capReg ccipHome rmnHome nodes (ds @ rest)
        (emit [EffAddChainConfig (HomeChainSel c) (Selector (chainOrZero e d)),
               EffAddDON (HomeChainSel c) (Selector (chainOrZero e d))] s)"
  proof -
    fix s
    from d obtain chainState offRamp where
      cs: "st_Chains st (Selector (chainOrZero e d)) = Some chainState"
      and off: "st_OffRamp chainState = Some offRamp"
      and acc: "AddChainConfig (chainOrZero e (HomeChainSel c)) ccipHome
                 (Selector (chainOrZero e d)) (PeerIDs (NonBootstraps nodes)) = None"
      and don: "AddDON capReg ccipHome (rh_Address rmnHome) offRamp (FeedChainSel c)
                   (chainOrZero e d) (chainOrZero e (HomeChainSel c)) (NonBootstraps nodes)
                   (USDCEnabledChainMap c d = Some True) = None"
      by (auto simp: chainConfigures_def split: option.splits)
    show "configureLoop AddChainConfig AddDON e c st capReg ccipHome rmnHome nodes
                 ((d # ds) @ rest) s =
      configureLoop AddChainConfig AddDON e c st capReg ccipHome rmnHome nodes (ds @ rest)
        (emit [EffAddChainConfig (HomeChainSel c) (Selector (chainOrZero e d)),
               EffAddDON (HomeChainSel c) (Selector (chainOrZero e d))] s)"
      using cs off acc don by (simp add: Let_def)
  qed
  show ?case
    unfolding step Cons.IH [OF ds]
    by (simp add: configuredEffects_def emit_emit)
qed

lemma configureLoop_state_missing:
  assumes "list_all (chainConfigures AddChainConfig AddDON e c st capReg ccipHome rmnHome nodes) done"
    and "st_Chains st (Selector (chainOrZero e x)) = None"
  shows "configureLoop AddChainConfig AddDON e c st capReg ccipHome rmnHome nodes
           (done @ x # rest) s =
         (Inl (Errorf ''chain state not found for chain %d''
                 [ArgUint (unat (Selector (chainOrZero e x)))]),
          emit (configuredEffects e c done) s)"
  unfolding configureLoop_done [OF assms(1)] using assms(2) by (simp add: Let_def)

lemma configureLoop_offramp_missing:
  assumes "list_all (chainConfigures AddChainConfig AddDON e c st capReg ccipHome rmnHome nodes) done"
    and "st_Chains st (Selector (chainOrZero e x)) = Some chainState"
    and "st_OffRamp chainState = None"
  shows "configureLoop AddChainConfig AddDON e c st capReg ccipHome rmnHome nodes
           (done @ x # rest) s =
         (Inl (Errorf ''off ramp not found for chain %d''
                 [ArgUint (unat (Selector (chainOrZero e x)))]),
          emit (configuredEffects e c done) s)"
  unfolding configureLoop_done [OF assms(1)] using assms(2,3) by (simp add: Let_def)

text \<open>
  C7 (amended). With OCR secrets present, nodes returned and the state loaded,
  \<open>configureChain\<close> returns an error as soon as it meets a missing record. For the home
  chain's capability registry, CCIPHome and RMNHome the message names the record and no
  chain, and nothing but an error log line has happened. For a target chain whose state
  or off-ramp is missing the message names the record and the selector of the chain
  handle; the chains \<open>done\<close> that precede it in \<open>ChainsToDeploy\<close> have been configured
  by then, and the effects are exactly theirs: none when the chain is the first target.
\<close>

theorem configureChain_missing_record:
  assumes "\<not> OCRSecretsIsEmpty c"
    and "env_NodeInfo e = (nodes, None)" and "nodes \<noteq> []"
    and "env_LoadOnchainState e = Inr st"
  shows
   "(st_CapabilityRegistry (chainStateOf st (HomeChainSel c)) = None \<longrightarrow>
       configureChain AddChainConfig AddDON e c s =
         (Inl (Errorf ''capability registry not found'' []),
          emit [Errorw ''Failed to get capability registry''] s))
    \<and> (st_CapabilityRegistry (chainStateOf st (HomeChainSel c)) \<noteq> None
        \<and> st_CCIPHome (chainStateOf st (HomeChainSel c)) = None \<longrightarrow>
       configureChain AddChainConfig AddDON e c s =
         (Inl (Errorf ''ccip home not found'' []), emit [Errorw ''Failed to get ccip home''] s))
    \<and> (st_CapabilityRegistry (chainStateOf st (HomeChainSel c)) \<noteq> None
        \<and> st_CCIPHome (chainStateOf st (HomeChainSel c)) \<noteq> None
        \<and> st_RMNHome (chainStateOf st (HomeChainSel c)) = None \<longrightarrow>
       configureChain AddChainConfig AddDON e c s =
         (Inl (Errorf ''rmn home not found'' []), emit [Errorw ''Failed to get rmn home''] s))
    \<and> (st_CapabilityRegistry (chainStateOf st (HomeChainSel c)) = Some capReg
        \<and> st_CCIPHome (chainStateOf st (HomeChainSel c)) = Some ccipHome
        \<and> st_RMNHome (chainStateOf st (HomeChainSel c)) = Some rmnHome
        \<and> ChainsToDeploy c = done @ x # rest
        \<and> list_all (chainConfigures AddChainConfig AddDON e c st capReg ccipHome rmnHome nodes) done
        \<longrightarrow>
         (st_Chains st (Selector (chainOrZero e x)) = None \<longrightarrow>
            configureChain AddChainConfig AddDON e c s =
              (Inl (Errorf ''chain state not found for chain %d''
                      [ArgUint (unat (Selector (chainOrZero e x)))]),
               emit (configuredEffects e c done) s))
         \<and> (\<forall>chainState. st_Chains st (Selector (chainOrZero e x)) = Some chainState
               \<and> st_OffRamp chainState = None \<longrightarrow>
            configureChain AddChainConfig AddDON e c s =
              (Inl (Errorf ''off ramp not found for chain %d''
                      [ArgUint (unat (Selector (chainOrZero e x)))]),
               emit (configuredEffects e c done) s)))"
proof -
  have pre: "\<And>body. configureChain AddChainConfig AddDON e c s =
     (case st_CapabilityRegistry (chainStateOf st (HomeChainSel c)) of
        None \<Rightarrow>
          (Inl (Errorf ''capability registry not found'' []),
           emit [Errorw ''Failed to get capability registry''] s)
      | Some capReg \<Rightarrow>
     (case st_CCIPHome (chainStateOf st (HomeChainSel c)) of
        None \<Rightarrow>
          (Inl (Errorf ''ccip home not found'' []), emit [Errorw ''Failed to get ccip home''] s)
      | Some ccipHome \<Rightarrow>
     (case st_RMNHome (chainStateOf st (HomeChainSel c)) of
        None \<Rightarrow>
          (Inl (Errorf ''rmn home not found'' []), emit [Errorw ''Failed to get rmn home''] s)
      | Some rmnHome \<Rightarrow>
          configureLoop AddChainConfig AddDON e c st capReg ccipHome rmnHome nodes
            (ChainsToDeploy c) s)))"
    using assms by (simp add: configureChain_def)
  show ?thesis
    unfolding pre
    by (auto simp: configureLoop_state_missing configureLoop_offramp_missing)
qed

lemma sample_chainConfigures:
  "chainConfigures sampleAddChainConfig sampleAddDON sampleEnv sampleConfig deployedState
     homeRegistry 0xB012 sampleRMNHome [\<lparr>PeerID = 0x11, IsBootstrap = False\<rparr>] 909606746561742123"
  by (simp add: chainConfigures_def sampleEnv_def chainOrZero_def chainA_def deployedState_def
      deployedChainState_def sampleAddChainConfig_def sampleAddDON_def)

theorem configureChain_missing_record_witness:
  "configureChain sampleAddChainConfig sampleAddDON sampleEnv sampleConfig emptyRun =
     (Inl (Errorf ''chain state not found for chain %d'' [ArgUint 5548718428018410741]),
      \<lparr>run_ab = [],
       run_trace = [EffAddChainConfig 909606746561742123 909606746561742123,
                    EffAddDON 909606746561742123 909606746561742123]\<rparr>)"
  using configureChain_missing_record
    [where c = sampleConfig and e = sampleEnv and st = deployedState
       and nodes = "[\<lparr>PeerID = 0x11, IsBootstrap = False\<rparr>]"
       and capReg = homeRegistry and ccipHome = "0xB012" and rmnHome = sampleRMNHome
       and ?done = "[909606746561742123]" and x = 5548718428018410741 and rest = "[]"
       and AddChainConfig = sampleAddChainConfig and AddDON = sampleAddDON and s = emptyRun]
    sample_chainConfigures
  by (simp add: sampleConfig_def sampleEnv_def chainStateOf_def deployedState_def
      deployedChainState_def chainOrZero_def chainA_def chainB_def configuredEffects_def
      emit_def emptyRun_def)

theorem configureChain_counterexample:
  "configureChain sampleAddChainConfig sampleAddDON sampleEnv sampleConfig emptyRun =
     (Inl (Errorf ''chain state not found for chain %d'' [ArgUint 5548718428018410741]),
      \<lparr>run_ab = [],
       run_trace = [EffAddChainConfig 909606746561742123 909606746561742123,
                    EffAddDON 909606746561742123 909606746561742123]\<rparr>)
   \<and> list_ex isMutating
        (run_trace (snd (configureChain sampleAddChainConfig sampleAddDON sampleEnv sampleConfig
                          emptyRun)))
   \<and> configureChain sampleAddChainConfig sampleAddDON blankEnv sampleConfig emptyRun =
      (Inl (Errorf ''capability registry not found'' []),
       \<lparr>run_ab = [], run_trace = [Errorw ''Failed to get capability registry'']\<rparr>)
   \<and> namedSelectors (Errorf ''capability registry not found'' []) = []"
  by (simp add: configureChain_def sampleConfig_def sampleEnv_def blankEnv_def chainStateOf_def
      deployedState_def deployedChainState_def chainOrZero_def chainA_def chainB_def
      zeroChainState_def Let_def sampleAddChainConfig_def sampleAddDON_def emit_def emptyRun_def)

section \<open>Properties of the fan-out\<close>

text \<open>The join runs every started task, whatever the tasks before it returned.\<close>

lemma errgroupWait_runs_all:
  "snd (errgroupWait tasks s) = foldl (\<lambda>s' task. snd (task s')) s tasks"
proof (induction tasks arbitrary: s)
  case Nil
  then show ?case by simp
next
  case (Cons t ts)
  obtain r s1 where t: "t s = (r, s1)" by (cases "t s")
  obtain r' s2 where ts: "errgroupWait ts s1 = (r', s2)" by (cases "errgroupWait ts s1")
  have "snd (errgroupWait ts s1) = foldl (\<lambda>s' task. snd (task s')) s1 ts"
    by (rule Cons.IH)
  with t ts show ?case by simp
qed

lemma errgroupWait_nil_error:
  "fst (errgroupWait tasks s) = Inr () \<Longrightarrow> task \<in> set tasks \<Longrightarrow> \<exists>s'. fst (task s') = Inr ()"
proof (induction tasks arbitrary: s)
  case Nil
  then show ?case by simp
next
  case (Cons t ts)
  obtain r s1 where t: "t s = (r, s1)" by (cases "t s")
  obtain r' s2 where ts: "errgroupWait ts s1 = (r', s2)" by (cases "errgroupWait ts s1")
  from Cons.prems(1) t ts have r: "r = Inr ()" and r': "r' = Inr ()"
    by (auto split: sum.splits)
  show ?case
  proof (cases "task = t")
    case True
    with t r show ?thesis by (metis fst_conv)
  next
    case False
    with Cons.prems(2) have "task \<in> set ts" by simp
    moreover from ts r' have "fst (errgroupWait ts s1) = Inr ()" by simp
    ultimately show ?thesis by (rule Cons.IH [rotated])
  qed
qed

text \<open>
  C8. \<open>deployChainContractsForChains\<close> validates each selector inside the loop that
  starts the tasks and returns from inside it. With the targets \<open>[A, 7]\<close>, where chain A
  is known and selector 7 is not, the task of A is started, no task is started for 7, and
  the function returns "chain 7 not found" without reaching \<open>Wait\<close>: the started task
  is not joined.
\<close>

theorem deployChainContractsForChains_returns_unjoined:
  "deployChainContractsForChains sampleInternal sampleEnv 909606746561742123
     [909606746561742123, 7] emptyRun =
     (Inl (Errorf ''chain %d not found'' [ArgUint 7]),
      \<lparr>run_ab = [], run_trace = [EffGo 909606746561742123]\<rparr>)
   \<and> EffWait \<notin> set (run_trace (snd (deployChainContractsForChains sampleInternal sampleEnv
          909606746561742123 [909606746561742123, 7] emptyRun)))"
  by (simp add: deployChainContractsForChains_def sampleInternal_def sampleEnv_def
      chainStateOf_def deployedState_def deployedChainState_def homeRegistry_def
      sampleRegistry_def emit_def emptyRun_def)

section \<open>Properties of the Change Router in batched mode\<close>

lemma routerSubmit_ids:
  "map ChainIdentifier (routerSubmit sel op bs) =
     (if sel \<in> set (map ChainIdentifier bs) then map ChainIdentifier bs
      else map ChainIdentifier bs @ [sel])"
  by (induction bs) auto

lemma opsFor_snoc:
  "opsFor sel' (ops @ [(sel, op)]) = opsFor sel' ops @ (if sel = sel' then [op] else [])"
  by (simp add: opsFor_def)

lemma routerSubmit_batches:
  assumes "\<forall>b \<in> set bs. Batch b = opsFor (ChainIdentifier b) ops"
    and "distinct (map ChainIdentifier bs)"
    and "sel \<notin> ChainIdentifier ` set bs \<Longrightarrow> opsFor sel ops = []"
  shows "\<forall>b \<in> set (routerSubmit sel op bs).
           Batch b = opsFor (ChainIdentifier b) (ops @ [(sel, op)])"
  using assms
proof (induction bs)
  case Nil
  then show ?case by (simp add: opsFor_snoc)
next
  case (Cons b bs)
  show ?case
  proof (cases "ChainIdentifier b = sel")
    case True
    have "ChainIdentifier b \<notin> set (map ChainIdentifier bs)"
      using Cons.prems(2) by simp
    then have others: "\<forall>b' \<in> set bs. ChainIdentifier b' \<noteq> sel"
      unfolding True [symmetric] set_map by (metis imageI)
    show ?thesis
      using True Cons.prems(1) others by (auto simp: opsFor_snoc)
  next
    case False
    have ih: "\<forall>b \<in> set (routerSubmit sel op bs).
           Batch b = opsFor (ChainIdentifier b) (ops @ [(sel, op)])"
      using Cons.prems False by (intro Cons.IH) auto
    show ?thesis
      using False Cons.prems(1) ih by (auto simp: opsFor_snoc)
  qed
qed

lemma submit_invariant:
  "distinct (map ChainIdentifier (foldl (\<lambda>bs p. routerSubmit (fst p) (snd p) bs) [] ops))
   \<and> set (map ChainIdentifier (foldl (\<lambda>bs p. routerSubmit (fst p) (snd p) bs) [] ops))
       = fst ` set ops
   \<and> (\<forall>b \<in> set (foldl (\<lambda>bs p. routerSubmit (fst p) (snd p) bs) [] ops).
         Batch b = opsFor (ChainIdentifier b) ops)"
proof (induction ops rule: rev_induct)
  case Nil
  then show ?case by simp
next
  case (snoc p ops)
  let ?bs = "foldl (\<lambda>bs p. routerSubmit (fst p) (snd p) bs) [] ops"
  from snoc have d: "distinct (map ChainIdentifier ?bs)"
    and ids: "set (map ChainIdentifier ?bs) = fst ` set ops"
    and bt: "\<forall>b \<in> set ?bs. Batch b = opsFor (ChainIdentifier b) ops"
    by simp_all
  have none: "fst p \<notin> ChainIdentifier ` set ?bs \<Longrightarrow> opsFor (fst p) ops = []"
  proof -
    assume "fst p \<notin> ChainIdentifier ` set ?bs"
    then have "fst p \<notin> fst ` set ops" using ids by simp
    then have "\<forall>q \<in> set ops. fst q \<noteq> fst p" by (metis imageI)
    then show "opsFor (fst p) ops = []" by (simp add: opsFor_def filter_empty_conv)
  qed
  have b': "\<forall>b \<in> set (routerSubmit (fst p) (snd p) ?bs).
           Batch b = opsFor (ChainIdentifier b) (ops @ [(fst p, snd p)])"
    by (rule routerSubmit_batches [OF bt d none])
  have d': "distinct (map ChainIdentifier (routerSubmit (fst p) (snd p) ?bs))"
    using d by (simp add: routerSubmit_ids)
  have ids': "set (map ChainIdentifier (routerSubmit (fst p) (snd p) ?bs)) = fst ` set (ops @ [p])"
    using ids by (auto simp: routerSubmit_ids)
  show ?case
    using b' d' ids' by simp
qed

lemma AddCapabilities_mcms_result:
  assumes "capabilities \<noteq> []"
    and "cs_CapabilitiesRegistry contractSet = Some registry"
    and "fst (dedupCapabilities registry capabilities) = Inr deduped"
    and "reg_AddCapabilities registry SimTransactOpts deduped = Inr tx"
  shows "fst (AddCapabilities DecodeErr contractSet chain capabilities True) =
           Inr (Some \<lparr>ChainIdentifier = Selector chain,
                       Batch = [\<lparr>To = reg_Address registry, Data = tx_Data tx, Value = 0\<rparr>]\<rparr>)"
proof -
  obtain evs where d: "dedupCapabilities registry capabilities = (Inr deduped, evs)"
    using assms(3) by (cases "dedupCapabilities registry capabilities") simp
  show ?thesis
    using assms(1,2,4) d by (simp add: AddCapabilities_def)
qed

text \<open>
  C5. Whatever a request submits in batched mode, in whatever order, the batches that
  result carry pairwise different environments, and the batch of an environment is the
  list of all operations submitted for it, in call order: no environment's operations
  are split across two batches. And an \<open>AppendNodeCapabilities\<close> request (non-empty
  capabilities, registry calls succeeding) yields exactly one proposal with one
  transaction, whose batch is the AddCapabilities operation followed by the node update.
\<close>

theorem batched_operations_share_one_batch:
  "distinct (map ChainIdentifier (submitAll ops))
   \<and> (\<forall>b \<in> set (submitAll ops). Batch b = opsFor (ChainIdentifier b) ops \<and> Batch b \<noteq> [])
   \<and> (capabilities \<noteq> [] \<and> cs_CapabilitiesRegistry contractSet = Some registry
       \<and> fst (dedupCapabilities registry capabilities) = Inr deduped
       \<and> reg_AddCapabilities registry SimTransactOpts deduped = Inr tx \<longrightarrow>
       AppendNodeCapabilitiesBatched DecodeErr contractSet chain capabilities updateNodes =
         Inr [\<lparr>Transactions =
                 [\<lparr>ChainIdentifier = Selector chain,
                   Batch = [\<lparr>To = reg_Address registry, Data = tx_Data tx, Value = 0\<rparr>,
                            updateNodes]\<rparr>]\<rparr>])"
proof -
  have inv: "distinct (map ChainIdentifier (submitAll ops))"
    "set (map ChainIdentifier (submitAll ops)) = fst ` set ops"
    "\<forall>b \<in> set (submitAll ops). Batch b = opsFor (ChainIdentifier b) ops"
    using submit_invariant [of ops] by (simp_all add: submitAll_def)
  have nonempty: "\<forall>b \<in> set (submitAll ops). Batch b \<noteq> []"
  proof
    fix b assume b: "b \<in> set (submitAll ops)"
    then have "ChainIdentifier b \<in> set (map ChainIdentifier (submitAll ops))" by simp
    then have "ChainIdentifier b \<in> fst ` set ops" unfolding inv(2) .
    then obtain q where "q \<in> set ops" "fst q = ChainIdentifier b" by (metis imageE)
    then have "opsFor (ChainIdentifier b) ops \<noteq> []"
      by (auto simp: opsFor_def filter_empty_conv)
    with inv(3) b show "Batch b \<noteq> []" by simp
  qed
  have req: "capabilities \<noteq> [] \<and> cs_CapabilitiesRegistry contractSet = Some registry
       \<and> fst (dedupCapabilities registry capabilities) = Inr deduped
       \<and> reg_AddCapabilities registry SimTransactOpts deduped = Inr tx \<longrightarrow>
       AppendNodeCapabilitiesBatched DecodeErr contractSet chain capabilities updateNodes =
         Inr [\<lparr>Transactions =
                 [\<lparr>ChainIdentifier = Selector chain,
                   Batch = [\<lparr>To = reg_Address registry, Data = tx_Data tx, Value = 0\<rparr>,
                            updateNodes]\<rparr>]\<rparr>]"
    by (auto simp: AppendNodeCapabilitiesBatched_def AddCapabilities_mcms_result
        buildProposals_def submitAll_def)
  show ?thesis using inv(1,3) nonempty req by blast
qed

theorem batched_operations_share_one_batch_witness:
  "AppendNodeCapabilitiesBatched id \<lparr>cs_CapabilitiesRegistry = Some sampleRegistry\<rparr> sampleChain
     [capA, capB] \<lparr>To = 0xCA, Data = [7], Value = 0\<rparr> =
     Inr [\<lparr>Transactions =
             [\<lparr>ChainIdentifier = 909606746561742123,
               Batch = [\<lparr>To = 0xCA, Data = [5, 6], Value = 0\<rparr>,
                        \<lparr>To = 0xCA, Data = [7], Value = 0\<rparr>]\<rparr>]\<rparr>]
   \<and> length (submitAll [(1, \<lparr>To = 0xCA, Data = [1], Value = 0\<rparr>),
                         (2, \<lparr>To = 0xCB, Data = [2], Value = 0\<rparr>),
                         (1, \<lparr>To = 0xCA, Data = [3], Value = 0\<rparr>)]) = 2"
  using batched_operations_share_one_batch
    [where capabilities = "[capA, capB]"
       and contractSet = "\<lparr>cs_CapabilitiesRegistry = Some sampleRegistry\<rparr>"
       and registry = sampleRegistry and deduped = "[capA, capB]"
       and tx = "\<lparr>tx_Hash = ''0x01'', tx_Data = [5, 6]\<rparr>"
       and DecodeErr = id and chain = sampleChain
       and updateNodes = "\<lparr>To = 0xCA, Data = [7], Value = 0\<rparr>"
       and ops = "[(1, \<lparr>To = 0xCA, Data = [1], Value = 0\<rparr>),
                   (2, \<lparr>To = 0xCB, Data = [2], Value = 0\<rparr>),
                   (1, \<lparr>To = 0xCA, Data = [3], Value = 0\<rparr>)]"]
    sample_dedup
  by (simp add: sampleRegistry_def sampleChain_def capA_def capB_def submitAll_def)

end
